theory Spec2Isabelle
  imports Main
begin

section \<open>Python values shared by the protocol modules\<close>

text \<open>
  Exceptions are values. Every function of the source that can raise returns
  \<open>error + 'a\<close>, with \<open>Inl\<close> the exception that reaches the caller.
\<close>

datatype error =
    ProtocolError | RuntimeError | LookupError | ValueError | KeyError | IndexError
  | AssertionError | AttributeError | NotImplementedError | StructError | BinasciiError
  | OSError | TypeError

text \<open>A Python \<open>bytes\<close> object is a list of numbers below 256.\<close>

definition is_bytes :: "nat list \<Rightarrow> bool" where
  "is_bytes bs = list_all (\<lambda>b. b < 256) bs"

text \<open>Slices \<open>s[-n:]\<close> and \<open>s[i:i+n]\<close>; neither raises when the string is short.\<close>

definition last_n :: "nat \<Rightarrow> 'a list \<Rightarrow> 'a list" where
  "last_n n xs = drop (length xs - n) xs"

definition slice :: "nat \<Rightarrow> nat \<Rightarrow> 'a list \<Rightarrow> 'a list" where
  "slice i j xs = take (j - i) (drop i xs)"

section \<open>The standard library's Base64 (\<open>base64\<close>, \<open>binascii\<close>)\<close>

definition b64alphabet :: string where
  "b64alphabet = ''ABCDEFGHIJKLMNOPQRSTUVWXYZabcdefghijklmnopqrstuvwxyz0123456789+/''"

text \<open>\<open>binascii.b2a_base64\<close> without the newline: three bytes give four characters.\<close>

fun b2a_base64 :: "nat list \<Rightarrow> string" where
  "b2a_base64 (a # b # c # rest) =
     [b64alphabet ! (a div 4), b64alphabet ! ((a mod 4) * 16 + b div 16),
      b64alphabet ! ((b mod 16) * 4 + c div 64), b64alphabet ! (c mod 64)] @ b2a_base64 rest"
| "b2a_base64 [a, b] =
     [b64alphabet ! (a div 4), b64alphabet ! ((a mod 4) * 16 + b div 16),
      b64alphabet ! ((b mod 16) * 4), CHR ''='']"
| "b2a_base64 [a] =
     [b64alphabet ! (a div 4), b64alphabet ! ((a mod 4) * 16), CHR ''='', CHR ''='']"
| "b2a_base64 [] = []"

text \<open>\<open>bytes.translate(bytes.maketrans(frm, to))\<close> for two-character tables.\<close>

definition translate2 :: "string \<Rightarrow> string \<Rightarrow> char \<Rightarrow> char" where
  "translate2 frm to c =
     (if c = frm ! 1 then to ! 1 else if c = frm ! 0 then to ! 0 else c)"

text \<open>\<open>base64.b64encode(s, altchars)\<close>; the source always passes two characters.\<close>

definition b64encode :: "nat list \<Rightarrow> string \<Rightarrow> error + string" where
  "b64encode s altchars =
     (if length altchars \<noteq> 2 then Inl AssertionError
      else Inr (map (translate2 ''+/'' altchars) (b2a_base64 s)))"

text \<open>The decoding table of \<open>binascii\<close>: the value of a character of the alphabet.\<close>

fun index_of :: "'a list \<Rightarrow> 'a \<Rightarrow> nat option" where
  "index_of [] c = None"
| "index_of (x # xs) c = (if x = c then Some 0 else map_option Suc (index_of xs c))"

definition table_a2b_base64 :: "char \<Rightarrow> nat option" where
  "table_a2b_base64 c = index_of b64alphabet c"

text \<open>
  \<open>binascii.a2b_base64\<close> in its default, non-strict mode: characters outside the
  alphabet are skipped, a pad character that completes a quad ends the decoding, and a
  quad left incomplete at the end of the input is an error.
\<close>

fun a2b_loop :: "string \<Rightarrow> nat \<Rightarrow> nat \<Rightarrow> nat \<Rightarrow> nat list \<Rightarrow> error + nat list" where
  "a2b_loop [] quad_pos leftchar pads out =
     (if quad_pos \<noteq> 0 then Inl BinasciiError else Inr out)"
| "a2b_loop (c # cs) quad_pos leftchar pads out =
     (if c = CHR ''='' then
        (if 2 \<le> quad_pos then
           (if 4 \<le> quad_pos + (pads + 1) then Inr out
            else a2b_loop cs quad_pos leftchar (pads + 1) out)
         else a2b_loop cs quad_pos leftchar pads out)
      else
        (case table_a2b_base64 c of
           None \<Rightarrow> a2b_loop cs quad_pos leftchar pads out
         | Some v \<Rightarrow>
            (if quad_pos = 0 then a2b_loop cs 1 v 0 out
             else if quad_pos = 1 then
               a2b_loop cs 2 (v mod 16) 0 (out @ [leftchar * 4 + v div 16])
             else if quad_pos = 2 then
               a2b_loop cs 3 (v mod 4) 0 (out @ [leftchar * 16 + v div 4])
             else a2b_loop cs 0 0 0 (out @ [leftchar * 64 + v]))))"

definition a2b_base64 :: "string \<Rightarrow> error + nat list" where
  "a2b_base64 s = a2b_loop s 0 0 0 []"

text \<open>
  \<open>base64.b64decode(s, altchars)\<close> on a \<open>str\<close>: the string is encoded as ASCII
  (\<open>ValueError\<close> on any other character), the alternative characters are mapped to
  \<open>+/\<close>, and the rest is \<open>a2b_base64\<close>.
\<close>

definition is_ascii :: "string \<Rightarrow> bool" where
  "is_ascii s = list_all (\<lambda>c. of_char c < (128::nat)) s"

definition b64decode :: "string \<Rightarrow> string \<Rightarrow> error + nat list" where
  "b64decode s altchars =
     (if \<not> is_ascii s then Inl ValueError
      else if \<not> is_ascii altchars then Inl ValueError
      else if length altchars \<noteq> 2 then Inl AssertionError
      else a2b_base64 (map (translate2 altchars ''+/'') s))"

section \<open>\<open>protocols/p10.py\<close>: numeric SIDs\<close>

text \<open>\<open>struct.pack('>I', num)\<close>: four big-endian bytes, \<open>struct.error\<close> out of range.\<close>

definition struct_pack_I :: "int \<Rightarrow> error + nat list" where
  "struct_pack_I num =
     (if num < 0 \<or> 4294967295 < num then Inl StructError
      else Inr [nat (num div 16777216 mod 256), nat (num div 65536 mod 256),
                nat (num div 256 mod 256), nat (num mod 256)])"

definition p10b64encode :: "int \<Rightarrow> error + string" where
  "p10b64encode num =
     (case struct_pack_I num of
        Inl e \<Rightarrow> Inl e
      | Inr packed \<Rightarrow>
          (case b64encode (drop 1 packed) ''[]'' of
             Inl e \<Rightarrow> Inl e
           | Inr sid \<Rightarrow> Inr (last_n 2 sid)))"

record P10SIDGenerator =
  minnum :: int
  maxnum :: int
  currentnum :: int

text \<open>
  \<open>P10SIDGenerator.__init__\<close> once the configured range has been read: the counter
  starts at the lower bound.
\<close>

definition P10SIDGenerator_init :: "int \<Rightarrow> int \<Rightarrow> P10SIDGenerator" where
  "P10SIDGenerator_init lo hi = \<lparr>minnum = lo, maxnum = hi, currentnum = lo\<rparr>"

text \<open>\<open>next_sid\<close> returns the SID and the generator after the call; a raise leaves it as it was.\<close>

definition next_sid :: "P10SIDGenerator \<Rightarrow> error + (string \<times> P10SIDGenerator)" where
  "next_sid self =
     (if maxnum self < currentnum self then Inl ProtocolError
      else (case p10b64encode (currentnum self) of
              Inl e \<Rightarrow> Inl e
            | Inr sid \<Rightarrow> Inr (sid, self\<lparr>currentnum := currentnum self + 1\<rparr>)))"

text \<open>The results of \<open>n\<close> successive calls, a caller catching each exception.\<close>

fun next_sids :: "nat \<Rightarrow> P10SIDGenerator \<Rightarrow> (error + string) list" where
  "next_sids 0 g = []"
| "next_sids (Suc n) g =
     (case next_sid g of
        Inl e \<Rightarrow> Inl e # next_sids n g
      | Inr (sid, g') \<Rightarrow> Inr sid # next_sids n g')"

text \<open>The character of the P10 alphabet for a six-bit value, and the SID of a number in closed form.\<close>

definition p10char :: "nat \<Rightarrow> char" where
  "p10char i = translate2 ''+/'' ''[]'' (b64alphabet ! i)"

definition sid_of :: "int \<Rightarrow> string" where
  "sid_of num = [p10char (nat num div 64 mod 64), p10char (nat num mod 64)]"

section \<open>The standard library's addresses (\<open>socket\<close>, \<open>ipaddress\<close>)\<close>

text \<open>Python's \<open>str.split(sep)\<close> for a separator of one character: never empty.\<close>

fun split_on :: "char \<Rightarrow> string \<Rightarrow> string list" where
  "split_on sep [] = [[]]"
| "split_on sep (x # xs) =
     (if x = sep then [] # split_on sep xs
      else (case split_on sep xs of
              p # ps \<Rightarrow> (x # p) # ps
            | [] \<Rightarrow> [[x]]))"

text \<open>Decimal and hexadecimal digits, and the printing of a number (\<open>%d\<close>, \<open>%x\<close>).\<close>

definition digit_char :: "nat \<Rightarrow> char" where
  "digit_char d = ''0123456789abcdef'' ! d"

definition is_digit :: "char \<Rightarrow> bool" where
  "is_digit c = (c \<in> set ''0123456789'')"

definition digit_val :: "char \<Rightarrow> nat" where
  "digit_val c = of_char c - 48"

function str_of_nat :: "nat \<Rightarrow> string" where
  "str_of_nat n = (if n < 10 then [digit_char n] else str_of_nat (n div 10) @ [digit_char (n mod 10)])"
  by pat_completeness auto
termination
  by (relation "measure id") auto

declare str_of_nat.simps [simp del]

function hex_of_nat :: "nat \<Rightarrow> string" where
  "hex_of_nat n = (if n < 16 then [digit_char n] else hex_of_nat (n div 16) @ [digit_char (n mod 16)])"
  by pat_completeness auto
termination
  by (relation "measure id") auto

declare hex_of_nat.simps [simp del]

text \<open>The value of a string of decimal digits, most significant first.\<close>

definition int_of_digits :: "string \<Rightarrow> nat" where
  "int_of_digits s = foldl (\<lambda>acc c. acc * 10 + digit_val c) 0 s"

text \<open>\<open>'.'.join(parts)\<close> and its relatives.\<close>

fun join :: "string \<Rightarrow> string list \<Rightarrow> string" where
  "join sep [] = []"
| "join sep [x] = x"
| "join sep (x # y # ys) = x @ sep @ join sep (y # ys)"

text \<open>\<open>socket.inet_ntoa\<close>: exactly four bytes, printed as a dotted quad.\<close>

definition inet_ntoa :: "nat list \<Rightarrow> error + string" where
  "inet_ntoa packed =
     (if length packed \<noteq> 4 then Inl OSError
      else Inr (join ''.'' (map str_of_nat packed)))"

text \<open>
  \<open>ipaddress.IPv4Address._parse_octet\<close>: one to three ASCII digits, no leading zero
  except for \<open>0\<close> itself, at most 255.
\<close>

definition parse_octet :: "string \<Rightarrow> nat option" where
  "parse_octet octet_str =
     (if octet_str = [] then None
      else if \<not> list_all is_digit octet_str then None
      else if 3 < length octet_str then None
      else if octet_str \<noteq> ''0'' \<and> hd octet_str = CHR ''0'' then None
      else if 255 < int_of_digits octet_str then None
      else Some (int_of_digits octet_str))"

text \<open>\<open>IPv4Address(address)\<close> on a string: the four octets, or none when it is refused.\<close>

definition IPv4Address :: "string \<Rightarrow> nat list option" where
  "IPv4Address ip_str =
     (let octets = split_on (CHR ''.'') ip_str in
      if ip_str = [] then None
      else if length octets \<noteq> 4 then None
      else if list_all (\<lambda>s. parse_octet s \<noteq> None) octets
           then Some (map (\<lambda>s. the (parse_octet s)) octets)
      else None)"

text \<open>
  \<open>IPv6Address(address)\<close> on a string, as far as acceptance goes: the groups are split
  at the colons, a dotted quad may stand for the last two groups, at most one \<open>::\<close>
  may stand for a run of zero groups, and every group is one to four hex digits. A
  zone suffix after \<open>%\<close> is split off first.
\<close>

definition is_hex_digit :: "char \<Rightarrow> bool" where
  "is_hex_digit c = (c \<in> set ''0123456789abcdefABCDEF'')"

definition parse_hextet_ok :: "string \<Rightarrow> bool" where
  "parse_hextet_ok hextet_str =
     (list_all is_hex_digit hextet_str \<and> length hextet_str \<le> 4 \<and> hextet_str \<noteq> [])"

definition split_scope_id :: "string \<Rightarrow> string option" where
  "split_scope_id ip_str =
     (let addr = takeWhile (\<lambda>c. c \<noteq> CHR ''%'') ip_str;
          rest = dropWhile (\<lambda>c. c \<noteq> CHR ''%'') ip_str
      in if rest = [] then Some addr
         else if tl rest = [] \<or> CHR ''%'' \<in> set (tl rest) then None
         else Some addr)"

definition IPv6Address_parts_ok :: "string list \<Rightarrow> bool" where
  "IPv6Address_parts_ok parts =
     (let n = length parts;
          skips = filter (\<lambda>i. parts ! i = []) [1..<n - 1]
      in if 9 < n then False
         else if 1 < length skips then False
         else if length skips = 1 then
           (let skip_index = hd skips;
                parts_hi0 = skip_index;
                parts_lo0 = n - skip_index - 1;
                parts_hi = (if parts ! 0 = [] then parts_hi0 - 1 else parts_hi0);
                parts_lo = (if last parts = [] then parts_lo0 - 1 else parts_lo0)
            in if parts ! 0 = [] \<and> parts_hi \<noteq> 0 then False
               else if last parts = [] \<and> parts_lo \<noteq> 0 then False
               else if 8 < parts_hi + parts_lo + 1 then False
               else list_all parse_hextet_ok (take parts_hi parts) \<and>
                    list_all parse_hextet_ok (drop (n - parts_lo) parts))
         else n = 8 \<and> parts ! 0 \<noteq> [] \<and> last parts \<noteq> [] \<and> list_all parse_hextet_ok parts)"

definition IPv6Address :: "string \<Rightarrow> bool" where
  "IPv6Address address =
     (case split_scope_id address of
        None \<Rightarrow> False
      | Some ip_str \<Rightarrow>
         (let parts = split_on (CHR '':'') ip_str in
          if ip_str = [] then False
          else if length parts < 3 then False
          else if CHR ''.'' \<in> set (last parts) then
            (case IPv4Address (last parts) of
               None \<Rightarrow> False
             | Some q \<Rightarrow>
                 IPv6Address_parts_ok
                   (butlast parts @
                    [hex_of_nat (q ! 0 * 256 + q ! 1), hex_of_nat (q ! 2 * 256 + q ! 3)]))
          else IPv6Address_parts_ok parts))"

text \<open>\<open>ipaddress.ip_address(ip).version\<close>: IPv4 is tried first, \<open>ValueError\<close> when neither fits.\<close>

definition ip_address_version :: "string \<Rightarrow> error + nat" where
  "ip_address_version ip =
     (if IPv4Address ip \<noteq> None then Inr 4
      else if IPv6Address ip then Inr 6
      else Inl ValueError)"

text \<open>
  \<open>socket.inet_aton\<close> on the strings it is given in \<open>spawnClient\<close>, which
  \<open>ip_address\<close> has accepted as IPv4: the four octets.
\<close>

definition inet_aton :: "string \<Rightarrow> error + nat list" where
  "inet_aton ip = (case IPv4Address ip of None \<Rightarrow> Inl OSError | Some q \<Rightarrow> Inr q)"

text \<open>
  \<open>socket.inet_ntop(AF_INET6, packed)\<close> as the C library prints it: sixteen bytes
  read as eight groups, the longest run of at least two zero groups (the first of the
  longest) written \<open>::\<close>, the other groups in hexadecimal without leading zeros, and
  the last four bytes as a dotted quad for IPv4-compatible and IPv4-mapped addresses.
\<close>

fun words_of :: "nat list \<Rightarrow> nat list" where
  "words_of (hi # lo # rest) = (hi * 256 + lo) # words_of rest"
| "words_of _ = []"

definition better :: "(nat \<times> nat) option \<Rightarrow> nat \<times> nat \<Rightarrow> (nat \<times> nat) option" where
  "better best cur =
     (case best of
        None \<Rightarrow> Some cur
      | Some b \<Rightarrow> if snd b < snd cur then Some cur else Some b)"

fun best_run :: "nat list \<Rightarrow> nat \<Rightarrow> (nat \<times> nat) option \<Rightarrow> (nat \<times> nat) option
                  \<Rightarrow> (nat \<times> nat) option" where
  "best_run [] i cur best = (case cur of None \<Rightarrow> best | Some c \<Rightarrow> better best c)"
| "best_run (w # ws) i cur best =
     (if w = 0 then
        (case cur of
           None \<Rightarrow> best_run ws (i + 1) (Some (i, 1)) best
         | Some c \<Rightarrow> best_run ws (i + 1) (Some (fst c, snd c + 1)) best)
      else
        (case cur of
           None \<Rightarrow> best_run ws (i + 1) None best
         | Some c \<Rightarrow> best_run ws (i + 1) None (better best c)))"

fun ntop6_groups :: "nat list \<Rightarrow> nat list \<Rightarrow> (nat \<times> nat) option \<Rightarrow> nat list \<Rightarrow> string" where
  "ntop6_groups packed words best [] = []"
| "ntop6_groups packed words best (i # is) =
     (case best of
        Some (base, len) \<Rightarrow>
          if base \<le> i \<and> i < base + len then
            (if i = base then '':'' else []) @ ntop6_groups packed words best is
          else
            (if i \<noteq> 0 then '':'' else []) @
            (if i = 6 \<and> base = 0 \<and> (len = 6 \<or> (len = 5 \<and> words ! 5 = 65535))
             then join ''.'' (map str_of_nat (drop 12 packed))
             else hex_of_nat (words ! i) @ ntop6_groups packed words best is)
      | None \<Rightarrow>
          (if i \<noteq> 0 then '':'' else []) @ hex_of_nat (words ! i) @
          ntop6_groups packed words best is)"

definition inet_ntop6 :: "nat list \<Rightarrow> error + string" where
  "inet_ntop6 packed =
     (if length packed \<noteq> 16 then Inl ValueError
      else
        (let words = words_of packed;
             found = best_run words 0 None None;
             best = (case found of
                       None \<Rightarrow> None
                     | Some b \<Rightarrow> if snd b < 2 then None else Some b)
         in Inr (ntop6_groups packed words best [0..<8] @
                 (case best of
                    Some (base, len) \<Rightarrow> if base + len = 8 then '':'' else []
                  | None \<Rightarrow> []))))"

section \<open>\<open>protocols/p10.py\<close>: addresses on the wire\<close>

text \<open>
  The loops of \<open>decode_p10_ip\<close> over the head and the tail: each section of three
  characters is decoded behind a padding \<open>A\<close>, whose byte is dropped.
\<close>

function decode_sections :: "string \<Rightarrow> error + nat list" where
  "decode_sections s =
     (if s = [] then Inr []
      else (case b64decode (CHR ''A'' # take 3 s) ''[]'' of
              Inl e \<Rightarrow> Inl e
            | Inr bs \<Rightarrow>
               (case decode_sections (drop 3 s) of
                  Inl e \<Rightarrow> Inl e
                | Inr rest \<Rightarrow> Inr (drop 1 bs @ rest))))"
  by pat_completeness auto
termination
  by (relation "measure length") auto

declare decode_sections.simps [simp del]

text \<open>The sixteen bytes that the IPv6 branch hands to \<open>inet_ntop\<close>.\<close>

definition decode_p10_ip6_bytes :: "string \<Rightarrow> error + nat list" where
  "decode_p10_ip6_bytes ip =
     (let pieces = split_on (CHR ''_'') ip in
      if CHR ''_'' \<in> set ip \<and> length pieces \<noteq> 2 then Inl ValueError
      else
        (let head = (if CHR ''_'' \<in> set ip then pieces ! 0 else ip);
             tail = (if CHR ''_'' \<in> set ip then pieces ! 1 else [])
         in case decode_sections head of
              Inl e \<Rightarrow> Inl e
            | Inr byteshead \<Rightarrow>
               (case decode_sections tail of
                  Inl e \<Rightarrow> Inl e
                | Inr bytestail \<Rightarrow>
                    Inr (byteshead @
                         replicate (16 - length byteshead - length bytestail) 0 @
                         bytestail))))"

text \<open>
  \<open>decode_p10_ip\<close>. The result is \<open>None\<close> where the Python function falls off its
  end, which it does for an input longer than 24 characters without an underscore.
\<close>

definition decode_p10_ip :: "string \<Rightarrow> error + string option" where
  "decode_p10_ip ip =
     (if length ip = 6 then
        (case b64decode (''AA'' @ ip) ''[]'' of
           Inl e \<Rightarrow> Inl e
         | Inr bs \<Rightarrow>
            (case inet_ntoa (drop 2 bs) of
               Inl e \<Rightarrow> Inl e
             | Inr s \<Rightarrow> Inr (Some s)))
      else if length ip \<le> 24 \<or> CHR ''_'' \<in> set ip then
        (case decode_p10_ip6_bytes ip of
           Inl e \<Rightarrow> Inl e
         | Inr ipbytes \<Rightarrow>
            (case inet_ntop6 ipbytes of
               Inl e \<Rightarrow> Inl e
             | Inr s \<Rightarrow> Inr (Some (if take 1 s = '':'' then CHR ''0'' # s else s))))
      else Inr None)"

text \<open>
  The address as \<open>spawnClient\<close> puts it on the wire (\<open>b64ip\<close>): an IPv4 address is
  packed behind two zero bytes and encoded, the first two characters dropped; any
  other address is sent as \<open>AAAAAA\<close>.
\<close>

definition spawnClient_b64ip :: "string \<Rightarrow> error + string" where
  "spawnClient_b64ip ip =
     (case ip_address_version ip of
        Inl e \<Rightarrow> Inl e
      | Inr version \<Rightarrow>
          if version = 4 then
            (case inet_aton ip of
               Inl e \<Rightarrow> Inl e
             | Inr packed \<Rightarrow>
                (case b64encode ([0, 0] @ packed) ''[]'' of
                   Inl e \<Rightarrow> Inl e
                 | Inr enc \<Rightarrow> Inr (drop 2 enc)))
          else Inr ''AAAAAA'')"

text \<open>The six characters that stand for the four octets of an IPv4 address.\<close>

definition b64ip_of :: "nat \<Rightarrow> nat \<Rightarrow> nat \<Rightarrow> nat \<Rightarrow> string" where
  "b64ip_of a b c d =
     map p10char [a div 64, a mod 64, b div 4, b mod 4 * 16 + c div 16,
                  c mod 16 * 4 + d div 64, d mod 64]"






section \<open>\<open>plugins/relay.py\<close>: the nick of a mirror client\<close>



text \<open>The truth value of an optional string: \<open>None\<close> and the empty string are false.\<close>

definition truthy :: "string option \<Rightarrow> bool" where
  "truthy r = (case r of None \<Rightarrow> False | Some s \<Rightarrow> s \<noteq> [])"












section \<open>\<open>protocols/ts6_common.py\<close>: SIDs from a template\<close>

text \<open>
  A position of \<open>self.iters\<close> holds either the character of the template (a string, on
  which \<open>next\<close> raises \<open>TypeError\<close>) or an iterator over the allowed characters, which
  is the list of the characters it has not yielded yet.
\<close>

datatype sid_iter = Fixed char | Iter string

text \<open>
  The attributes of a \<open>TS6SIDGenerator\<close>. \<open>__init__\<close> sets \<open>irc\<close>, \<open>query\<close>,
  \<open>iters\<close>, \<open>output\<close> and \<open>allowedchars\<close>; the class has no other attribute. The
  field \<open>servers\<close> is the attribute of that name that \<open>next_sid\<close> reads: \<open>None\<close>
  as long as nothing has set it on the instance. The live server table is the one of the
  protocol object, \<open>live_servers\<close> here.
\<close>

record TS6SIDGenerator =
  live_servers :: "string list"
  query :: string
  iters :: "sid_iter list"
  output_chars :: string
  allowedchars :: "nat \<Rightarrow> string option"
  servers :: "string list option"

definition digits :: string where
  "digits = ''0123456789''"

definition ascii_uppercase :: string where
  "ascii_uppercase = ''ABCDEFGHIJKLMNOPQRSTUVWXYZ''"

text \<open>The loop of \<open>__init__\<close> over the characters of the template, from index \<open>idx\<close> on.\<close>

fun init_chars :: "nat \<Rightarrow> string \<Rightarrow> TS6SIDGenerator \<Rightarrow> error + TS6SIDGenerator" where
  "init_chars idx [] self = Inr self"
| "init_chars idx (char # rest) self =
     (if char \<notin> set (digits @ ascii_uppercase @ ''#'') then Inl AssertionError
      else if char = CHR ''#'' then
        (let allowed = (if idx = 0 then digits else digits @ ascii_uppercase) in
         init_chars (idx + 1) rest
           (self\<lparr>allowedchars := (allowedchars self)(idx \<mapsto> allowed),
                  iters := (iters self)[idx := Iter (tl allowed)],
                  output_chars := (output_chars self)[idx := hd allowed]\<rparr>))
      else init_chars (idx + 1) rest self)"

text \<open>
  \<open>TS6SIDGenerator(irc)\<close>: the template is \<open>irc.serverdata["sidrange"]\<close>, \<open>None\<close>
  when the key is missing.
\<close>

definition TS6SIDGenerator_init :: "string list \<Rightarrow> string option \<Rightarrow> error + TS6SIDGenerator" where
  "TS6SIDGenerator_init live sidrange =
     (case sidrange of
        None \<Rightarrow> Inl RuntimeError
      | Some q \<Rightarrow>
          if length q \<noteq> 3 then Inl AssertionError
          else if CHR ''#'' \<notin> set q then Inl AssertionError
          else init_chars 0 q
                 \<lparr>live_servers = live, query = q, iters = map Fixed q, output_chars = q,
                  allowedchars = Map.empty, servers = None\<rparr>)"

text \<open>
  \<open>increment(pos)\<close>, with \<open>n = pos + 1\<close>. What it has written to the generator stays
  when it raises, so the generator is returned in both cases.
\<close>

fun increment_from :: "nat \<Rightarrow> TS6SIDGenerator \<Rightarrow> error option \<times> TS6SIDGenerator" where
  "increment_from 0 self = (Some RuntimeError, self)"
| "increment_from (Suc pos) self =
     (case iters self ! pos of
        Fixed c \<Rightarrow> increment_from pos self
      | Iter (c # rest) \<Rightarrow>
          (None, self\<lparr>output_chars := (output_chars self)[pos := c], iters := (iters self)[pos := Iter rest]\<rparr>)
      | Iter [] \<Rightarrow>
          increment_from pos
            (self\<lparr>output_chars := (output_chars self)[pos := hd (the (allowedchars self pos))],
                   iters := (iters self)[pos := Iter (tl (the (allowedchars self pos)))]\<rparr>))"

definition increment :: "TS6SIDGenerator \<Rightarrow> error option \<times> TS6SIDGenerator" where
  "increment self = increment_from 3 self"

text \<open>The \<open>while\<close> loop of \<open>next_sid\<close> over a server table; \<open>None\<close> if it does not end.\<close>

partial_function (option) next_sid_loop ::
  "string list \<Rightarrow> TS6SIDGenerator \<Rightarrow> ((error + string) \<times> TS6SIDGenerator) option" where
  "next_sid_loop table self =
     (if output_chars self \<in> set table then
        (case increment self of
           (Some e, self') \<Rightarrow> Some (Inl e, self')
         | (None, self') \<Rightarrow> next_sid_loop table self')
      else Some (Inr (output_chars self), self))"

declare next_sid_loop.simps [code]

text \<open>
  \<open>TS6SIDGenerator.next_sid\<close>. Its loop condition reads \<open>self.servers\<close>; on an
  instance without that attribute the first evaluation raises \<open>AttributeError\<close>.
\<close>

definition next_sid_TS6 ::
  "TS6SIDGenerator \<Rightarrow> ((error + string) \<times> TS6SIDGenerator) option" where
  "next_sid_TS6 self =
     (case servers self of
        None \<Rightarrow> Some (Inl AttributeError, self)
      | Some table \<Rightarrow> next_sid_loop table self)"

section \<open>The state of a network and the helpers of the protocol modules\<close>

text \<open>
  The protocol classes of \<open>protocols/p10.py\<close> and \<open>protocols/ts6_common.py\<close> keep the
  users, servers and channels of a network in the tables \<open>self.users\<close>,
  \<open>self.servers\<close> and \<open>self.channels\<close>. Several classes have attributes of the same
  name (\<open>users\<close>, \<open>modes\<close>, \<open>ts\<close>, \<open>name\<close>), so the fields below carry the class as
  a prefix. A mode is a pair of a mode string and an optional argument.
\<close>

type_synonym mode_pair = "string \<times> string option"

text \<open>
  Modelled from the spec: the classes \<open>IrcUser\<close>, \<open>IrcServer\<close> and \<open>IrcChannel\<close> that
  the protocol modules use are not among the sources (\<open>classes.py\<close> there is an earlier
  version, without the server of a user, its channels, or the internal flag of a server).
  The fields are the attributes that the protocol modules read and write: a user has a
  nick, a nick timestamp, an owning server and a set of joined channels; a server has a
  name, an uplink, an \<open>internal\<close> flag and a set of owned users; a channel has a set of
  member UIDs, a set of modes, a timestamp, a topic, and for each prefix mode name
  (\<open>op\<close>, \<open>halfop\<close>, \<open>voice\<close>, \<open>owner\<close>, \<open>admin\<close>) the set of members holding it.
\<close>

record IrcUser =
  user_nick :: string
  user_ts :: int
  user_uid :: string
  user_server :: string
  user_ident :: string
  user_host :: string
  user_realname :: string
  user_realhost :: string
  user_ip :: string
  user_manipulatable :: bool
  user_opertype :: string
  user_channels :: "string set"
  user_away :: string

record IrcServer =
  server_uplink :: "string option"
  server_name :: string
  server_internal :: bool
  server_desc :: string
  server_users :: "string set"

record IrcChannel =
  chan_users :: "string set"
  chan_modes :: "mode_pair set"
  chan_ts :: int
  chan_topic :: string
  chan_topicset :: bool
  chan_prefixmodes :: "string \<Rightarrow> string set"

text \<open>
  The protocol object: its own server id, the three tables, the table \<open>cmodes\<close> from
  channel mode names to mode letters, the table \<open>prefixmodes\<close> from prefix mode letters
  to prefix symbols, the counters of the UID generators in \<open>uidgen\<close>, and the lines
  handed to \<open>self.send\<close>, oldest first.
\<close>

record IRCS2SProtocol =
  sid :: "string option"
  irc_users :: "string \<rightharpoonup> IrcUser"
  irc_servers :: "string \<rightharpoonup> IrcServer"
  irc_channels :: "string \<rightharpoonup> IrcChannel"
  cmodes :: "string \<rightharpoonup> string"
  prefixmodes :: "string \<rightharpoonup> string"
  uidgen :: "string \<rightharpoonup> nat"
  sent :: "string list"

text \<open>
  The methods of the base class that the two modules call and whose code is not among
  the sources, where no claim depends on what they compute: they are parameters, and every
  theorem holds for all of them. \<open>time\<close> is the reading of \<open>int(time.time())\<close>,
  \<open>uid_str\<close> the UID that the generator of a server makes of its counter, and
  \<open>conf_realname\<close> the configured real name of the bot.
\<close>

record helpers =
  time :: int
  toLower :: "string \<Rightarrow> string"
  get_UID :: "IRCS2SProtocol \<Rightarrow> string \<Rightarrow> string"
  isChannel :: "string \<Rightarrow> bool"
  joinModes :: "mode_pair list \<Rightarrow> string"
  wrapModes :: "mode_pair list \<Rightarrow> int \<Rightarrow> string list"
  parseModes :: "IRCS2SProtocol \<Rightarrow> string \<Rightarrow> string list \<Rightarrow> mode_pair list"
  applyModes :: "string \<Rightarrow> mode_pair list \<Rightarrow> IRCS2SProtocol \<Rightarrow> IRCS2SProtocol"
  updateTS :: "string \<Rightarrow> string \<Rightarrow> int \<Rightarrow> mode_pair set \<Rightarrow> IRCS2SProtocol \<Rightarrow> IRCS2SProtocol"
  removeClient :: "string \<Rightarrow> IRCS2SProtocol \<Rightarrow> IRCS2SProtocol"
  getHostmask :: "IRCS2SProtocol \<Rightarrow> string \<Rightarrow> string"
  uid_str :: "string \<Rightarrow> nat \<Rightarrow> string"
  conf_realname :: string

text \<open>
  An operation returns its value or the exception it raises, together with the state it
  leaves: what an operation has written or sent before it raises stays.
\<close>

type_synonym 'a outcome = "(error + 'a) \<times> IRCS2SProtocol"

text \<open>
  Modelled from the spec: \<open>self.send\<close> is not among the sources. It puts one line on the
  wire; here it appends the line to \<open>sent\<close>.
\<close>

definition send :: "string \<Rightarrow> IRCS2SProtocol \<Rightarrow> IRCS2SProtocol" where
  "send text irc = irc\<lparr>sent := sent irc @ [text]\<rparr>"

text \<open>\<open>P10Protocol._send_with_prefix\<close>: \<open>"%s %s" % (source, text)\<close>.\<close>

definition send_with_prefix_P10 :: "string \<Rightarrow> string \<Rightarrow> IRCS2SProtocol \<Rightarrow> IRCS2SProtocol" where
  "send_with_prefix_P10 source text irc = send (source @ '' '' @ text) irc"

text \<open>\<open>TS6BaseProtocol._send_with_prefix\<close>: \<open>':%s %s' % (source, msg)\<close>.\<close>

definition send_with_prefix_TS6 :: "string \<Rightarrow> string \<Rightarrow> IRCS2SProtocol \<Rightarrow> IRCS2SProtocol" where
  "send_with_prefix_TS6 source msg irc = send ('':'' @ source @ '' '' @ msg) irc"

text \<open>\<open>TS6BaseProtocol._expandPUID\<close> returns the UID as it is.\<close>

definition expandPUID :: "string \<Rightarrow> string" where
  "expandPUID uid = uid"

text \<open>
  Modelled from the spec: a channel is created on the first JOIN, CREATE or BURST for its
  name, and the handlers of these commands only look the name up in \<open>self.channels\<close>; so
  the table makes a channel for a name it does not have, with no members, no modes and
  the current time as timestamp. \<open>channels_get\<close> is the lookup \<open>self.channels[channel]\<close>.
\<close>

definition new_IrcChannel :: "helpers \<Rightarrow> IrcChannel" where
  "new_IrcChannel h =
     \<lparr>chan_users = {}, chan_modes = {}, chan_ts = time h, chan_topic = [],
      chan_topicset = False, chan_prefixmodes = (\<lambda>_. {})\<rparr>"

definition channels_get :: "helpers \<Rightarrow> string \<Rightarrow> IRCS2SProtocol \<Rightarrow> IrcChannel \<times> IRCS2SProtocol" where
  "channels_get h channel irc =
     (case irc_channels irc channel of
        Some cobj \<Rightarrow> (cobj, irc)
      | None \<Rightarrow> (new_IrcChannel h,
                 irc\<lparr>irc_channels := (irc_channels irc)(channel \<mapsto> new_IrcChannel h)\<rparr>))"

text \<open>
  Modelled from the spec: the methods of a channel. \<open>removeuser\<close> takes a user out of the
  member set and out of every prefix mode set; \<open>isOp\<close> and \<open>isHalfop\<close> tell whether a
  user holds the prefix mode.
\<close>

definition removeuser :: "string \<Rightarrow> IrcChannel \<Rightarrow> IrcChannel" where
  "removeuser target cobj =
     cobj\<lparr>chan_prefixmodes := (\<lambda>m. chan_prefixmodes cobj m - {target}),
          chan_users := chan_users cobj - {target}\<rparr>"

definition isOp :: "IrcChannel \<Rightarrow> string \<Rightarrow> bool" where
  "isOp cobj uid = (uid \<in> chan_prefixmodes cobj ''op'')"

definition isHalfop :: "IrcChannel \<Rightarrow> string \<Rightarrow> bool" where
  "isHalfop cobj uid = (uid \<in> chan_prefixmodes cobj ''halfop'')"

text \<open>
  Modelled from the spec: an actor is a live, internally-owned client when it is in the
  user table and its owning server is in the server table with the \<open>internal\<close> flag; it
  is a live, internally-owned server when it is in the server table with the flag.
  \<open>getServer\<close> is the owning server of a user, or nothing for an unknown user.
\<close>

definition getServer :: "IRCS2SProtocol \<Rightarrow> string \<Rightarrow> string option" where
  "getServer irc numeric = map_option user_server (irc_users irc numeric)"

definition isInternalServer :: "IRCS2SProtocol \<Rightarrow> string \<Rightarrow> bool" where
  "isInternalServer irc s =
     (case irc_servers irc s of None \<Rightarrow> False | Some srv \<Rightarrow> server_internal srv)"

definition isInternalClient :: "IRCS2SProtocol \<Rightarrow> string \<Rightarrow> bool" where
  "isInternalClient irc numeric =
     (case getServer irc numeric of None \<Rightarrow> False | Some s \<Rightarrow> isInternalServer irc s)"

text \<open>
  Modelled from the spec: \<open>getFriendlyName\<close> is the name of an entity, the name of a
  server or the nick of a user; an identifier in neither table is a \<open>KeyError\<close>.
\<close>

definition getFriendlyName :: "IRCS2SProtocol \<Rightarrow> string \<Rightarrow> error + string" where
  "getFriendlyName irc entityid =
     (case irc_servers irc entityid of
        Some srv \<Rightarrow> Inr (server_name srv)
      | None \<Rightarrow> (case irc_users irc entityid of
                   Some u \<Rightarrow> Inr (user_nick u)
                 | None \<Rightarrow> Inl KeyError))"

text \<open>The text that \<open>%s\<close> makes of an optional string: \<open>None\<close> prints as its name.\<close>

definition str_of_opt :: "string option \<Rightarrow> string" where
  "str_of_opt x = (case x of None \<Rightarrow> ''None'' | Some s \<Rightarrow> s)"

text \<open>The text that \<open>%s\<close> makes of an integer.\<close>

definition str_of_int :: "int \<Rightarrow> string" where
  "str_of_int i = (if i < 0 then CHR ''-'' # str_of_nat (nat (- i)) else str_of_nat (nat i))"

section \<open>Parts and kicks\<close>

text \<open>
  The body of the loop of \<open>P10Protocol.handle_part\<close> for one channel: the user leaves the
  member set, the channel leaves the channel set of the user (a \<open>KeyError\<close> on an unknown
  user is caught and logged), and a channel without members is deleted.
\<close>

definition part_one_P10 :: "helpers \<Rightarrow> string \<Rightarrow> string \<Rightarrow> IRCS2SProtocol \<Rightarrow> IRCS2SProtocol" where
  "part_one_P10 h source channel irc =
     (let (cobj, irc1) = channels_get h channel irc;
          irc2 = irc1\<lparr>irc_channels := (irc_channels irc1)(channel \<mapsto> removeuser source cobj)\<rparr>;
          irc3 = (case irc_users irc2 source of
                    None \<Rightarrow> irc2
                  | Some u \<Rightarrow> irc2\<lparr>irc_users := (irc_users irc2)
                                 (source \<mapsto> u\<lparr>user_channels := user_channels u - {channel}\<rparr>)\<rparr>);
          (cobj', irc4) = channels_get h channel irc3
      in if chan_users cobj' = {}
         then irc4\<lparr>irc_channels := (irc_channels irc4)(channel := None)\<rparr>
         else irc4)"

text \<open>
  \<open>P10Protocol.handle_part(source, command, args)\<close>. The event it returns has the
  channels and the reason, \<open>args[1]\<close> or the empty string.
\<close>

definition handle_part_P10 ::
  "helpers \<Rightarrow> string \<Rightarrow> string \<Rightarrow> string list \<Rightarrow> IRCS2SProtocol \<Rightarrow> (string list \<times> string) outcome" where
  "handle_part_P10 h source command args irc =
     (if args = [] then (Inl IndexError, irc)
      else
        let channels = split_on (CHR '','') (toLower h (args ! 0));
            reason = (if 1 < length args then args ! 1 else [])
        in (Inr (channels, reason), foldl (\<lambda>st channel. part_one_P10 h source channel st) irc channels))"

text \<open>
  The test of \<open>TS6BaseProtocol.handle_part\<close> for a permanent channel:
  \<open>(self.cmodes.get('permanent'), None) in self.channels[channel].modes\<close>. Without a
  mode named \<open>permanent\<close> the pair starts with \<open>None\<close>, which no mode of a channel does.
\<close>

definition is_permanent :: "IRCS2SProtocol \<Rightarrow> IrcChannel \<Rightarrow> bool" where
  "is_permanent irc cobj =
     (case cmodes irc ''permanent'' of
        None \<Rightarrow> False
      | Some m \<Rightarrow> (m, None) \<in> chan_modes cobj)"

text \<open>The body of the loop of \<open>TS6BaseProtocol.handle_part\<close> for one channel.\<close>

definition part_one_TS6 :: "helpers \<Rightarrow> string \<Rightarrow> string \<Rightarrow> IRCS2SProtocol \<Rightarrow> IRCS2SProtocol" where
  "part_one_TS6 h source channel irc =
     (let (cobj, irc1) = channels_get h channel irc;
          irc2 = irc1\<lparr>irc_channels := (irc_channels irc1)(channel \<mapsto> removeuser source cobj)\<rparr>;
          irc3 = (case irc_users irc2 source of
                    None \<Rightarrow> irc2
                  | Some u \<Rightarrow> irc2\<lparr>irc_users := (irc_users irc2)
                                 (source \<mapsto> u\<lparr>user_channels := user_channels u - {channel}\<rparr>)\<rparr>);
          (cobj', irc4) = channels_get h channel irc3
      in if \<not> (chan_users cobj' \<noteq> {} \<or> is_permanent irc4 cobj')
         then irc4\<lparr>irc_channels := (irc_channels irc4)(channel := None)\<rparr>
         else irc4)"

definition handle_part_TS6 ::
  "helpers \<Rightarrow> string \<Rightarrow> string \<Rightarrow> string list \<Rightarrow> IRCS2SProtocol \<Rightarrow> (string list \<times> string) outcome" where
  "handle_part_TS6 h source command args irc =
     (if args = [] then (Inl IndexError, irc)
      else
        let channels = split_on (CHR '','') (toLower h (args ! 0));
            reason = (if 1 < length args then args ! 1 else [])
        in (Inr (channels, reason), foldl (\<lambda>st channel. part_one_TS6 h source channel st) irc channels))"

text \<open>
  \<open>P10Protocol.handle_kick\<close>: the kicked user parts the channel, and a PART line is sent
  for it in acknowledgement. The event has the channel, the target and the text.
\<close>

definition handle_kick_P10 ::
  "helpers \<Rightarrow> string \<Rightarrow> string \<Rightarrow> string list \<Rightarrow> IRCS2SProtocol \<Rightarrow> (string \<times> string \<times> string) outcome" where
  "handle_kick_P10 h source command args irc =
     (if length args < 3 then (Inl IndexError, irc)
      else
        let channel = toLower h (args ! 0);
            kicked = args ! 1
        in case handle_part_P10 h kicked ''KICK'' [channel, args ! 2] irc of
             (Inl e, irc1) \<Rightarrow> (Inl e, irc1)
           | (Inr _, irc1) \<Rightarrow>
               (Inr (channel, kicked, args ! 2),
                send_with_prefix_P10 kicked (''L '' @ channel @ '' :'' @ args ! 2) irc1))"

text \<open>\<open>TS6BaseProtocol.handle_kick\<close>; the reason is \<open>args[2]\<close> or the empty string.\<close>

definition handle_kick_TS6 ::
  "helpers \<Rightarrow> string \<Rightarrow> string \<Rightarrow> string list \<Rightarrow> IRCS2SProtocol \<Rightarrow> (string \<times> string \<times> string) outcome" where
  "handle_kick_TS6 h source command args irc =
     (if length args < 2 then (Inl IndexError, irc)
      else
        let channel = toLower h (args ! 0);
            kicked = get_UID h irc (args ! 1);
            reason = (if 2 < length args then args ! 2 else [])
        in case handle_part_TS6 h kicked ''KICK'' [channel, reason] irc of
             (Inl e, irc1) \<Rightarrow> (Inl e, irc1)
           | (Inr _, irc1) \<Rightarrow> (Inr (channel, kicked, reason), irc1))"

text \<open>
  \<open>P10Protocol.kick(numeric, channel, target, reason)\<close>. A sender that is not a server
  and holds neither op nor halfop in the channel is replaced by its server, and its name
  goes in front of the reason.
\<close>

definition kick_P10 ::
  "helpers \<Rightarrow> string \<Rightarrow> string \<Rightarrow> string \<Rightarrow> string option \<Rightarrow> IRCS2SProtocol \<Rightarrow> unit outcome" where
  "kick_P10 h numeric channel target reason irc =
     (if \<not> isInternalClient irc numeric \<and> \<not> isInternalServer irc numeric then (Inl LookupError, irc)
      else
        let channel1 = toLower h channel;
            reason1 = (if \<not> truthy reason then ''No reason given'' else the reason);
            (cobj, irc1) = channels_get h channel1 irc
        in case (if irc_servers irc1 numeric = None \<and> \<not> isOp cobj numeric \<and> \<not> isHalfop cobj numeric
                 then (case getFriendlyName irc1 numeric of
                         Inl e \<Rightarrow> Inl e
                       | Inr name \<Rightarrow>
                           Inr (str_of_opt (getServer irc1 numeric), ''('' @ name @ '') '' @ reason1))
                 else Inr (numeric, reason1)) of
             Inl e \<Rightarrow> (Inl e, irc1)
           | Inr (numeric1, reason2) \<Rightarrow>
               (let irc2 = send_with_prefix_P10 numeric1
                             (''K '' @ channel1 @ '' '' @ target @ '' :'' @ reason2) irc1
                in case handle_part_P10 h target ''KICK'' [channel1] irc2 of
                     (Inl e, irc3) \<Rightarrow> (Inl e, irc3)
                   | (Inr _, irc3) \<Rightarrow> (Inr (), irc3)))"

text \<open>\<open>TS6BaseProtocol.kick(numeric, channel, target, reason)\<close>.\<close>

definition kick_TS6 ::
  "helpers \<Rightarrow> string \<Rightarrow> string \<Rightarrow> string \<Rightarrow> string option \<Rightarrow> IRCS2SProtocol \<Rightarrow> unit outcome" where
  "kick_TS6 h numeric channel target reason irc =
     (if \<not> isInternalClient irc numeric \<and> \<not> isInternalServer irc numeric then (Inl LookupError, irc)
      else
        let channel1 = toLower h channel;
            reason1 = (if \<not> truthy reason then ''No reason given'' else the reason);
            real_target = expandPUID target;
            irc1 = send_with_prefix_TS6 numeric
                     (''KICK '' @ channel1 @ '' '' @ real_target @ '' :'' @ reason1) irc
        in case handle_part_TS6 h target ''KICK'' [channel1] irc1 of
             (Inl e, irc2) \<Rightarrow> (Inl e, irc2)
           | (Inr _, irc2) \<Rightarrow> (Inr (), irc2))"

text \<open>
  A user is not a member of a channel of the table: the table has no such channel, or the
  member set of the channel does not have the user.
\<close>

definition not_member :: "string \<Rightarrow> string \<Rightarrow> IRCS2SProtocol \<Rightarrow> bool" where
  "not_member target c irc =
     (case irc_channels irc c of None \<Rightarrow> True | Some cobj \<Rightarrow> target \<notin> chan_users cobj)"

section \<open>\<open>protocols/p10.py\<close>: incoming BURST\<close>

text \<open>
  \<open>int(s)\<close> on a string: white space around the number is dropped, a sign may come
  first, and the digits may be grouped by single underscores. Anything else is a
  \<open>ValueError\<close>, \<open>None\<close> here.
\<close>

definition is_space :: "char \<Rightarrow> bool" where
  "is_space c = ((of_char c :: nat) \<in> set [9, 10, 11, 12, 13, 28, 29, 30, 31, 32, 133, 160])"

definition strip :: "string \<Rightarrow> string" where
  "strip s = rev (dropWhile is_space (rev (dropWhile is_space s)))"

definition py_int :: "string \<Rightarrow> int option" where
  "py_int s =
     (let t = strip s;
          neg = (t \<noteq> [] \<and> hd t = CHR ''-'');
          r = (if t \<noteq> [] \<and> (hd t = CHR ''-'' \<or> hd t = CHR ''+'') then tl t else t);
          groups = split_on (CHR ''_'') r
      in if list_all (\<lambda>g. g \<noteq> [] \<and> list_all is_digit g) groups
         then Some ((if neg then - 1 else 1) * int (int_of_digits (concat groups)))
         else None)"

text \<open>\<open>s.startswith('%')\<close>.\<close>

definition starts_with_percent :: "string \<Rightarrow> bool" where
  "starts_with_percent s = (s \<noteq> [] \<and> hd s = CHR ''%'')"

text \<open>
  The loop of \<open>handle_burst\<close> over the hosts of the ban list: an empty host is passed
  over, \<open>~\<close> starts the ban exempts, every other host is a ban or an exempt.
\<close>

fun ban_hosts :: "bool \<Rightarrow> string list \<Rightarrow> mode_pair list" where
  "ban_hosts exempts [] = []"
| "ban_hosts exempts (host # rest) =
     (if host = [] then ban_hosts exempts rest
      else if host = ''~'' then ban_hosts True rest
      else (if exempts then (''+e'', Some host) else (''+b'', Some host)) # ban_hosts exempts rest)"

text \<open>
  \<open>user, prefixes = userpair.split(':')\<close>, with \<open>user = userpair\<close> when the unpacking
  raises \<open>ValueError\<close>, that is when the split has not exactly two parts; the prefixes
  are then the ones of the entry before.
\<close>

definition burst_uid :: "string \<Rightarrow> string" where
  "burst_uid userpair =
     (let parts = split_on (CHR '':'') userpair in
      if length parts = 2 then parts ! 0 else userpair)"

definition burst_prefixes :: "string \<Rightarrow> string \<Rightarrow> string" where
  "burst_prefixes userpair prefixes =
     (let parts = split_on (CHR '':'') userpair in
      if length parts = 2 then parts ! 1 else prefixes)"

text \<open>
  The body of the loop of \<open>handle_burst\<close> over the user list. The variables of the loop
  are the list of names, the prefixes, the changed modes and the state of the network.
\<close>

definition burst_user ::
  "helpers \<Rightarrow> string \<Rightarrow> string list \<times> string \<times> mode_pair set \<times> IRCS2SProtocol \<Rightarrow> string
     \<Rightarrow> string list \<times> string \<times> mode_pair set \<times> IRCS2SProtocol" where
  "burst_user h channel vars userpair =
     (case vars of (namelist, prefixes, changedmodes, irc) \<Rightarrow>
        let user = burst_uid userpair;
            prefixes1 = burst_prefixes userpair prefixes
        in case irc_users irc user of
             None \<Rightarrow> (namelist, prefixes1, changedmodes, irc)
           | Some u \<Rightarrow>
               let irc1 = irc\<lparr>irc_users := (irc_users irc)
                               (user \<mapsto> u\<lparr>user_channels := insert channel (user_channels u)\<rparr>)\<rparr>;
                   changedmodes1 = changedmodes \<union> (\<lambda>mode. (''+'' @ [mode], Some user)) ` set prefixes1;
                   (cobj, irc2) = channels_get h channel irc1;
                   irc3 = irc2\<lparr>irc_channels := (irc_channels irc2)
                                (channel \<mapsto> cobj\<lparr>chan_users := insert user (chan_users cobj)\<rparr>)\<rparr>
               in (namelist @ [user], prefixes1, changedmodes1, irc3))"

text \<open>The event that \<open>handle_burst\<close> returns.\<close>

record burst_event =
  ev_channel :: string
  ev_users :: "string list"
  ev_modes :: "mode_pair list"
  ev_ts :: int
  ev_channeldata :: IrcChannel

text \<open>
  \<open>P10Protocol.handle_burst(source, command, args)\<close>. A line with fewer than three
  arguments is ignored and the handler returns \<open>None\<close>.
\<close>

definition handle_burst ::
  "helpers \<Rightarrow> string \<Rightarrow> string \<Rightarrow> string list \<Rightarrow> IRCS2SProtocol \<Rightarrow> burst_event option outcome" where
  "handle_burst h source command args irc =
     (if length args < 3 then (Inr None, irc)
      else
        let channel = toLower h (args ! 0);
            (chandata, irc1) = channels_get h channel irc;
            has_bans = starts_with_percent (last args);
            bans = (if has_bans then ban_hosts False (split_on (CHR '' '') (tl (last args))) else []);
            args1 = (if has_bans then butlast args else args);
            modestring = drop 2 (butlast args1);
            parsedmodes = (if modestring \<noteq> [] then parseModes h irc1 channel modestring else []);
            changedmodes = set (parsedmodes @ bans);
            userlist = split_on (CHR '','') (last args1);
            (namelist, prefixes, changedmodes1, irc2) =
               (if last args1 \<noteq> args1 ! 1
                then foldl (burst_user h channel) ([], [], changedmodes, irc1) userlist
                else ([], [], changedmodes, irc1))
        in case py_int (args1 ! 1) of
             None \<Rightarrow> (Inl ValueError, irc2)
           | Some their_ts \<Rightarrow>
               (Inr (Some \<lparr>ev_channel = channel, ev_users = namelist, ev_modes = parsedmodes,
                           ev_ts = their_ts, ev_channeldata = chandata\<rparr>),
                updateTS h source channel their_ts changedmodes1 irc2))"

text \<open>
  The arguments of a BURST line without its ban list, the UIDs of its user list, and
  those of them that the user table has.
\<close>

definition burst_args :: "string list \<Rightarrow> string list" where
  "burst_args args = (if starts_with_percent (last args) then butlast args else args)"

definition burst_uids :: "string list \<Rightarrow> string list" where
  "burst_uids args = map burst_uid (split_on (CHR '','') (last (burst_args args)))"

definition known_uids :: "IRCS2SProtocol \<Rightarrow> string list \<Rightarrow> string list" where
  "known_uids irc args = filter (\<lambda>u. irc_users irc u \<noteq> None) (burst_uids args)"

section \<open>A small network\<close>

text \<open>
  A network to run the operations on: the server \<open>AB\<close> of the bridge with its client
  \<open>ABAAA\<close> (nick \<open>PyLink\<close>), the remote server \<open>AC\<close> with its client \<open>ACAAA\<close> (nick
  \<open>GL\<close>), and the channel \<open>#test\<close>, permanent (\<open>+z\<close>), with \<open>ACAAA\<close> as its only
  member. The helpers are the simplest ones: names are in lower case already.
\<close>

definition example_helpers :: helpers where
  "example_helpers =
     \<lparr>time = 1460742014, toLower = (\<lambda>s. s), get_UID = (\<lambda>irc s. s),
      isChannel = (\<lambda>s. s \<noteq> [] \<and> hd s = CHR ''#''),
      joinModes = (\<lambda>ms. concat (map fst ms)), wrapModes = (\<lambda>ms n. [concat (map fst ms)]),
      parseModes = (\<lambda>irc t ss. []), applyModes = (\<lambda>t ms irc. irc),
      updateTS = (\<lambda>s c ts ms irc. irc), removeClient = (\<lambda>u irc. irc),
      getHostmask = (\<lambda>irc u. u), uid_str = (\<lambda>s n. s @ ''AA'' @ [''ABCDEFGHIJ'' ! (n mod 10)]),
      conf_realname = ''PyLink Service Client''\<rparr>"

definition example_user :: "string \<Rightarrow> string \<Rightarrow> string \<Rightarrow> string set \<Rightarrow> IrcUser" where
  "example_user nick uid server chans =
     \<lparr>user_nick = nick, user_ts = 1460742000, user_uid = uid, user_server = server,
      user_ident = ''null'', user_host = ''null'', user_realname = ''null'',
      user_realhost = ''null'', user_ip = ''0.0.0.0'', user_manipulatable = False,
      user_opertype = ''IRC Operator'', user_channels = chans, user_away = []\<rparr>"

definition example_channel :: IrcChannel where
  "example_channel =
     \<lparr>chan_users = {''ACAAA''}, chan_modes = {(''z'', None), (''n'', None)},
      chan_ts = 1460742000, chan_topic = [], chan_topicset = False,
      chan_prefixmodes = (\<lambda>_. {})\<rparr>"

definition example_net :: IRCS2SProtocol where
  "example_net =
     \<lparr>sid = Some ''AB'',
      irc_users = [''ABAAA'' \<mapsto> example_user ''PyLink'' ''ABAAA'' ''AB'' {},
                   ''ACAAA'' \<mapsto> example_user ''GL'' ''ACAAA'' ''AC'' {''#test''}],
      irc_servers = [''AB'' \<mapsto> \<lparr>server_uplink = None, server_name = ''pylink.local'',
                                 server_internal = True, server_desc = [],
                                 server_users = {''ABAAA''}\<rparr>,
                     ''AC'' \<mapsto> \<lparr>server_uplink = Some ''AB'', server_name = ''nefarious.local'',
                                 server_internal = False, server_desc = [],
                                 server_users = {''ACAAA''}\<rparr>],
      irc_channels = [''#test'' \<mapsto> example_channel],
      cmodes = [''permanent'' \<mapsto> ''z'', ''key'' \<mapsto> ''k'', ''*A'' \<mapsto> ''be'',
                ''*B'' \<mapsto> ''AUk'', ''*C'' \<mapsto> ''Ll'', ''*D'' \<mapsto> ''psmtinrDRaOMNzQCTcSd''],
      prefixmodes = [''o'' \<mapsto> ''@'', ''v'' \<mapsto> ''+''],
      uidgen = Map.empty,
      sent = []\<rparr>"

section \<open>Numeric SIDs: the range generator\<close>


lemma p10char_inj: "i < 64 \<Longrightarrow> j < 64 \<Longrightarrow> p10char i = p10char j \<Longrightarrow> i = j"
proof -
  have d: "distinct (map (translate2 ''+/'' ''[]'') b64alphabet)"
    by (simp add: b64alphabet_def translate2_def)
  have l: "length b64alphabet = 64" by (simp add: b64alphabet_def)
  assume a: "i < 64" "j < 64" "p10char i = p10char j"
  then have "map (translate2 ''+/'' ''[]'') b64alphabet ! i = map (translate2 ''+/'' ''[]'') b64alphabet ! j"
    by (simp add: p10char_def l)
  with nth_eq_iff_index_eq[OF d, of i j] a l show "i = j" by simp
qed

lemma sextet_arith: "((n::nat) div 256 mod 256 mod 16) * 4 + n mod 256 div 64 = n div 64 mod 64"
proof -
  define m where "m = n div 64"
  have a: "n div 256 = m div 4" unfolding m_def by (simp add: div_mult2_eq)
  have b: "n mod 256 div 64 = m mod 4"
    using mod_mult2_eq[of n 64 4] unfolding m_def by simp
  have c: "m div 4 mod 256 mod 16 = m div 4 mod 16" by (simp add: mod_mod_cancel)
  have d: "m mod 64 = 4 * (m div 4 mod 16) + m mod 4"
    using mod_mult2_eq[of m 4 16] by simp
  show ?thesis unfolding a b c m_def[symmetric] d by simp
qed

lemma p10b64encode_eq:
  assumes "0 \<le> num" "num \<le> 4294967295"
  shows "p10b64encode num = Inr (sid_of num)"
proof -
  obtain n where n: "num = int n" using assms(1) by (metis nat_0_le)
  have a: "nat (int n div 256 mod 256) = n div 256 mod 256" 
    by (simp add: nat_div_distrib nat_mod_distrib zdiv_int zmod_int)
  have b: "nat (int n mod 256) = n mod 256" by (simp add: nat_mod_distrib zmod_int)
  have c: "n mod 256 mod 64 = n mod 64" by (simp add: mod_mod_cancel)
  show ?thesis using assms unfolding n
    by (simp add: p10b64encode_def struct_pack_I_def b64encode_def last_n_def p10char_def sid_of_def a b c sextet_arith del: of_nat_numeral)
qed

lemma sid_of_inj:
  assumes "0 \<le> a" "0 \<le> b" "sid_of a = sid_of b"
  shows "a mod 4096 = b mod 4096"
proof -
  from assms(3) have 1: "nat a div 64 mod 64 = nat b div 64 mod 64" and 2: "nat a mod 64 = nat b mod 64"
    by (auto simp: sid_of_def dest!: p10char_inj[rotated 2])
  have e: "\<And>n::nat. n mod 4096 = 64 * (n div 64 mod 64) + n mod 64"
    using mod_mult2_eq[of _ 64 64] by simp
  have "nat a mod 4096 = nat b mod 4096" unfolding e 1 2 ..
  then have "int (nat a mod 4096) = int (nat b mod 4096)" by simp
  with assms(1,2) show ?thesis by (simp add: zmod_int)
qed

lemma next_sids_eq:
  assumes "0 \<le> currentnum g" "maxnum g \<le> 4294967295"
  shows "next_sids n g =
     map (\<lambda>k. if currentnum g + int k \<le> maxnum g then Inr (sid_of (currentnum g + int k))
               else Inl ProtocolError) [0..<n]"
  using assms
proof (induction n arbitrary: g)
  case 0
  then show ?case by simp
next
  case (Suc n)
  show ?case
  proof (cases "maxnum g < currentnum g")
    case True
    then have ns: "next_sid g = Inl ProtocolError" by (simp add: next_sid_def)
    have "next_sids (Suc n) g = Inl ProtocolError # next_sids n g" by (simp add: ns)
    also have "\<dots> = Inl ProtocolError # map (\<lambda>k. if currentnum g + int k \<le> maxnum g then Inr (sid_of (currentnum g + int k))
               else Inl ProtocolError) [0..<n]" using Suc by simp
    also have "\<dots> = map (\<lambda>k. if currentnum g + int k \<le> maxnum g then Inr (sid_of (currentnum g + int k))
               else Inl ProtocolError) [0..<Suc n]"
      using True by (simp add: map_replicate_const[symmetric] del: upt_Suc) (simp add: map_replicate_const replicate_append_same)
    finally show ?thesis .
  next
    case False
    let ?g' = "g\<lparr>currentnum := currentnum g + 1\<rparr>"
    from False Suc.prems have ns: "next_sid g = Inr (sid_of (currentnum g), ?g')"
      by (simp add: next_sid_def p10b64encode_eq)
    have ih: "next_sids n ?g' = map (\<lambda>k. if currentnum ?g' + int k \<le> maxnum ?g' then Inr (sid_of (currentnum ?g' + int k))
               else Inl ProtocolError) [0..<n]"
      using Suc.prems by (intro Suc.IH) simp_all
    have "[0..<Suc n] = 0 # map Suc [0..<n]" by (simp add: upt_conv_Cons map_Suc_upt del: upt_Suc)
    then show ?thesis using False by (simp add: ns ih o_def add.assoc del: upt_Suc)
  qed
qed


lemma next_sids_length: "length (next_sids n g) = n"
  by (induction n arbitrary: g) (auto split: sum.splits)

lemma next_sids_nth:
  assumes "0 \<le> currentnum g" "maxnum g \<le> 4294967295" "k < n"
  shows "next_sids n g ! k =
     (if currentnum g + int k \<le> maxnum g then Inr (sid_of (currentnum g + int k))
      else Inl ProtocolError)"
  using assms by (simp add: next_sids_eq)

lemma mod_4096_window:
  assumes "(a::int) mod 4096 = b mod 4096" "\<bar>a - b\<bar> < 4096"
  shows "a = b"
proof (rule ccontr)
  assume "a \<noteq> b"
  then have nz: "a - b \<noteq> 0" by simp
  from assms(1) have "4096 dvd a - b" by (simp add: mod_eq_dvd_iff)
  from dvd_imp_le_int[OF nz this] assms(2) show False by simp
qed

text \<open>
  C5 (as amended). For bounds \<open>0 \<le> minnum \<le> maxnum \<le> 4294967295\<close> that span at most
  4096 numbers, the first \<open>maxnum - minnum + 1\<close> calls of \<open>next_sid\<close> succeed and
  return pairwise distinct SIDs of two characters, and every later call raises
  \<open>ProtocolError\<close>.
\<close>

theorem next_sid_range_distinct:
  assumes "0 \<le> lo" "lo \<le> hi" "hi \<le> 4294967295" "hi - lo < 4096"
  shows "let n = nat (hi - lo + 1); rs = next_sids (n + m) (P10SIDGenerator_init lo hi) in
           (\<forall>k<n. \<exists>sid. rs ! k = Inr sid \<and> length sid = 2) \<and>
           distinct (take n rs) \<and>
           (\<forall>k. n \<le> k \<and> k < n + m \<longrightarrow> rs ! k = Inl ProtocolError)"
proof -
  define n where "n = nat (hi - lo + 1)"
  define rs where "rs = next_sids (n + m) (P10SIDGenerator_init lo hi)"
  define f where "f = (\<lambda>k. if lo + int k \<le> hi then Inr (sid_of (lo + int k)) else Inl ProtocolError)"
  have rs: "rs = map f [0..<n + m]"
    unfolding rs_def f_def using assms next_sids_eq[of "P10SIDGenerator_init lo hi" "n + m"]
    by (simp add: P10SIDGenerator_init_def)
  have nth: "\<And>k. k < n + m \<Longrightarrow> rs ! k = f k" by (simp add: rs)
  have small: "\<And>k. k < n \<Longrightarrow> lo + int k \<le> hi" unfolding n_def by linarith
  have big: "\<And>k. n \<le> k \<Longrightarrow> \<not> lo + int k \<le> hi" unfolding n_def by linarith
  have 1: "\<forall>k<n. \<exists>sid. rs ! k = Inr sid \<and> length sid = 2"
    using nth small by (simp add: sid_of_def f_def)
  have 3: "\<forall>k. n \<le> k \<and> k < n + m \<longrightarrow> rs ! k = Inl ProtocolError"
    using nth big by (simp add: f_def)
  have tk: "take n rs = map f [0..<n]" by (simp add: rs take_map)
  have "inj_on f {0..<n}"
  proof (rule inj_onI)
    fix x y assume xy: "x \<in> {0..<n}" "y \<in> {0..<n}" "f x = f y"
    then have "sid_of (lo + int x) = sid_of (lo + int y)" using small by (simp add: f_def)
    with assms(1) have m: "(lo + int x) mod 4096 = (lo + int y) mod 4096"
      by (intro sid_of_inj) simp_all
    have "int x < 4096" "int y < 4096" using xy(1,2) assms unfolding n_def by auto
    then have "\<bar>(lo + int x) - (lo + int y)\<bar> < 4096" by linarith
    from mod_4096_window[OF m this] show "x = y" by simp
  qed
  then have 2: "distinct (take n rs)" by (simp add: tk distinct_map)
  from 1 2 3 show ?thesis unfolding Let_def n_def[symmetric] rs_def[symmetric] by blast
qed

text \<open>
  C5 as stated fails for a range wider than 4096: only the low twelve bits of the
  number reach the SID, so with the bounds 0 and 4096 the first and the 4097th call
  both succeed and both return \<open>AA\<close>.
\<close>

theorem next_sid_wide_range_repeats:
  "next_sids 4097 (P10SIDGenerator_init 0 4096) ! 0 = Inr ''AA'' \<and>
   next_sids 4097 (P10SIDGenerator_init 0 4096) ! 4096 = Inr ''AA''"
proof -
  have a: "sid_of 0 = ''AA''" "sid_of 4096 = ''AA''"
    by (simp_all add: sid_of_def p10char_def b64alphabet_def translate2_def)
  have "next_sids 4097 (P10SIDGenerator_init 0 4096) ! 0 = Inr (sid_of 0)"
    using next_sids_nth[of "P10SIDGenerator_init 0 4096" 0 4097] by (simp add: P10SIDGenerator_init_def)
  moreover have "next_sids 4097 (P10SIDGenerator_init 0 4096) ! 4096 = Inr (sid_of 4096)"
    using next_sids_nth[of "P10SIDGenerator_init 0 4096" 4096 4097] by (simp add: P10SIDGenerator_init_def)
  ultimately show ?thesis by (simp only: a)
qed

text \<open>C5, at the bounds 0 and 1 with one further call.\<close>

theorem next_sid_range_distinct_witness:
  "(0::int) \<le> 0 \<and> (0::int) \<le> 1 \<and> (1::int) \<le> 4294967295 \<and> (1::int) - 0 < 4096 \<and>
   (let n = nat (1 - 0 + 1); rs = next_sids (n + 1) (P10SIDGenerator_init 0 1) in
           (\<forall>k<n. \<exists>sid. rs ! k = Inr sid \<and> length sid = 2) \<and>
           distinct (take n rs) \<and>
           (\<forall>k. n \<le> k \<and> k < n + 1 \<longrightarrow> rs ! k = Inl ProtocolError))"
  using next_sid_range_distinct[of 0 1 1] by simp


section \<open>Addresses on the wire: encoding and decoding\<close>

lemma alphabet_facts:
  "list_all (\<lambda>i. table_a2b_base64 (b64alphabet ! i) = Some i \<and> b64alphabet ! i \<noteq> CHR ''=''
      \<and> (of_char (p10char i) :: nat) < 128 \<and> p10char i \<noteq> CHR ''=''
      \<and> translate2 ''[]'' ''+/'' (p10char i) = b64alphabet ! i) [0..<64]"
  by code_simp

lemma alphabet_nth:
  assumes "i < 64"
  shows "table_a2b_base64 (b64alphabet ! i) = Some i" "b64alphabet ! i \<noteq> CHR ''=''"
    "(of_char (p10char i) :: nat) < 128" "translate2 ''[]'' ''+/'' (p10char i) = b64alphabet ! i"
  using alphabet_facts assms by (auto simp: list_all_iff)

lemma a2b_loop_quad:
  assumes "v0 < 64" "v1 < 64" "v2 < 64" "v3 < 64"
  shows "a2b_loop (b64alphabet ! v0 # b64alphabet ! v1 # b64alphabet ! v2 # b64alphabet ! v3 # rest) 0 l p out =
         a2b_loop rest 0 0 0 (out @ [v0 * 4 + v1 div 16, v1 mod 16 * 16 + v2 div 4, v2 mod 4 * 64 + v3])"
  using assms by (simp add: alphabet_nth)


lemma sextets_of_byte:
  assumes "a < (256::nat)"
  shows "a div 64 < 4" "a div 64 div 4 = 0" "a div 64 mod 4 * 64 + a mod 64 = a"
        "a div 4 < 64" "a mod 4 * 16 < 64" "a div 16 < 16" "a mod 16 * 4 < 64" "a mod 64 < 64"
  using assms by simp_all

lemma quad_arith:
  assumes "c < (256::nat)" "d < 256"
  shows "b div 4 * 4 + (b mod 4 * 16 + c div 16) div 16 = b"
    "(b mod 4 * 16 + c div 16) mod 16 * 16 + (c mod 16 * 4 + d div 64) div 4 = c"
    "(c mod 16 * 4 + d div 64) mod 4 * 64 + d mod 64 = d"
    "b mod 4 * 16 + c div 16 < 64" "c mod 16 * 4 + d div 64 < 64"
proof -
  have c16: "c div 16 < 16" and d64: "d div 64 < 4" using assms by simp_all
  show "b div 4 * 4 + (b mod 4 * 16 + c div 16) div 16 = b" using c16 by simp
  show "(b mod 4 * 16 + c div 16) mod 16 * 16 + (c mod 16 * 4 + d div 64) div 4 = c"
    using c16 d64 by simp
  show "(c mod 16 * 4 + d div 64) mod 4 * 64 + d mod 64 = d" using d64 by simp
  have "b mod 4 < 4" by simp
  then have "b mod 4 * 16 \<le> 48" by linarith
  with c16 show "b mod 4 * 16 + c div 16 < 64" by linarith
  have "c mod 16 < 16" by simp
  then have "c mod 16 * 4 \<le> 60" by linarith
  with d64 show "c mod 16 * 4 + d div 64 < 64" by linarith
qed


lemma b64encode_quad:
  "b64encode [0, 0, a, b, c, d] ''[]'' = Inr (''AA'' @ b64ip_of a b c d)"
  by (simp add: b64encode_def b64ip_of_def p10char_def)
     (simp add: b64alphabet_def translate2_def)

lemma b64decode_quad:
  assumes "a < 256" "b < 256" "c < 256" "d < 256"
  shows "b64decode (''AA'' @ b64ip_of a b c d) ''[]'' = Inr [0, 0, a, b, c, d]"
proof -
  have A: "''AA'' = map p10char [0, 0]"
    by (simp add: p10char_def b64alphabet_def translate2_def)
  let ?vs = "[0, 0, a div 64, a mod 64, b div 4, b mod 4 * 16 + c div 16,
                  c mod 16 * 4 + d div 64, d mod 64]"
  have vs: "list_all (\<lambda>v. v < 64) ?vs"
    using assms by (simp add: sextets_of_byte quad_arith)
  have s: "''AA'' @ b64ip_of a b c d = map p10char ?vs" by (simp add: A b64ip_of_def)
  have asc: "is_ascii (map p10char ?vs)"
    using vs by (simp add: is_ascii_def alphabet_nth)
  have tr: "map (translate2 ''[]'' ''+/'') (map p10char ?vs) = map ((!) b64alphabet) ?vs"
    using vs by (simp add: alphabet_nth)
  have "a2b_base64 (map ((!) b64alphabet) ?vs) = Inr [0, 0, a, b, c, d]"
    using vs assms unfolding a2b_base64_def
    by (simp add: a2b_loop_quad sextets_of_byte quad_arith del: a2b_loop.simps(2))
  then show ?thesis unfolding s b64decode_def using asc tr
    by (simp add: is_ascii_def)
qed

lemma is_digitD:
  assumes "is_digit c"
  obtains d where "d < 10" "c = digit_char d" "digit_val c = d"
proof -
  from assms have "c \<in> set ''0123456789''" by (simp add: is_digit_def)
  then have "\<exists>d<10. c = digit_char d \<and> digit_val c = d"
    by (auto simp: digit_char_def digit_val_def)
  then show ?thesis using that by blast
qed

lemma digit_char_0: "digit_char 0 = CHR ''0''" by (simp add: digit_char_def)

lemma digit_char_eq_0: "d < 10 \<Longrightarrow> digit_char d = CHR ''0'' \<Longrightarrow> d = 0"
proof -
  assume a: "d < 10" "digit_char d = CHR ''0''"
  have dd: "distinct ''0123456789abcdef''" by simp
  have "''0123456789abcdef'' ! d = ''0123456789abcdef'' ! 0" using a by (simp add: digit_char_def)
  with nth_eq_iff_index_eq[OF dd, of d 0] a show "d = 0" by simp
qed

lemma str_of_nat_1: "d < 10 \<Longrightarrow> str_of_nat d = [digit_char d]"
  by (simp add: str_of_nat.simps)

lemma str_of_nat_step:
  assumes "0 < q" "d < 10"
  shows "str_of_nat (q * 10 + d) = str_of_nat q @ [digit_char d]"
proof -
  have a: "\<not> q * 10 + d < 10" using assms by linarith
  have b: "(q * 10 + d) div 10 = q" "(q * 10 + d) mod 10 = d" using assms by simp_all
  show ?thesis by (subst str_of_nat.simps) (simp only: a b if_False)
qed

lemma parse_octet_print:
  assumes "parse_octet s = Some n"
  shows "n < 256 \<and> str_of_nat n = s"
proof -
  from assms have ne: "s \<noteq> []" and dg: "list_all is_digit s" and len: "length s \<le> 3"
    and lz: "s = ''0'' \<or> hd s \<noteq> CHR ''0''" and le: "int_of_digits s \<le> 255"
    and n: "n = int_of_digits s"
    by (auto simp: parse_octet_def split: if_splits)
  from ne have "0 < length s" by simp
  with len have "length s = 1 \<or> length s = 2 \<or> length s = 3"
    by linarith
  then consider c0 where "s = [c0]" | c1 c0 where "s = [c1, c0]"
    | c2 c1 c0 where "s = [c2, c1, c0]"
    by (auto simp: length_Suc_conv numeral_2_eq_2 numeral_3_eq_3)
  then have "str_of_nat (int_of_digits s) = s"
  proof cases
    case 1
    with dg obtain d where "d < 10" "c0 = digit_char d" "digit_val c0 = d"
      by (auto elim: is_digitD)
    with 1 show ?thesis by (simp add: int_of_digits_def str_of_nat_1)
  next
    case 2
    with dg obtain d1 d0 where d: "d1 < 10" "c1 = digit_char d1" "digit_val c1 = d1"
        "d0 < 10" "c0 = digit_char d0" "digit_val c0 = d0"
      by (auto elim!: is_digitD)
    from lz 2 d have "0 < d1" by (cases "d1 = 0") (auto simp: digit_char_0)
    have v: "int_of_digits s = d1 * 10 + d0" using 2 d by (simp add: int_of_digits_def)
    show ?thesis unfolding v using \<open>0 < d1\<close> d 2
      by (simp only: str_of_nat_step str_of_nat_1) simp
  next
    case 3
    with dg obtain d2 d1 d0 where d: "d2 < 10" "c2 = digit_char d2" "digit_val c2 = d2"
        "d1 < 10" "c1 = digit_char d1" "digit_val c1 = d1"
        "d0 < 10" "c0 = digit_char d0" "digit_val c0 = d0"
      by (auto elim!: is_digitD)
    from lz 3 d have p: "0 < d2" by (cases "d2 = 0") (auto simp: digit_char_0)
    then have p2: "0 < d2 * 10 + d1" by simp
    have v: "int_of_digits s = (d2 * 10 + d1) * 10 + d0" using 3 d by (simp add: int_of_digits_def)
    show ?thesis unfolding v using p p2 d 3
      by (simp only: str_of_nat_step str_of_nat_1) simp
  qed
  with le n show ?thesis by simp
qed

lemma split_on_nonempty: "split_on c s \<noteq> []"
  by (induction s) (auto split: list.splits)

lemma join_Cons_Cons: "join sep ((x # p) # ps) = x # join sep (p # ps)"
  by (cases ps) simp_all

lemma join_split_on: "join [c] (split_on c s) = s"
proof (induction s)
  case Nil
  then show ?case by simp
next
  case (Cons x xs)
  obtain p ps where sp: "split_on c xs = p # ps"
    using split_on_nonempty[of c xs] by (cases "split_on c xs") auto
  show ?case using Cons by (simp add: sp join_Cons_Cons)
qed

lemma IPv4Address_print:
  assumes "IPv4Address ip = Some q"
  shows "length q = 4 \<and> list_all (\<lambda>x. x < 256) q \<and> join ''.'' (map str_of_nat q) = ip"
proof -
  let ?octets = "split_on CHR ''.'' ip"
  from assms have len: "length ?octets = 4" and ok: "list_all (\<lambda>s. parse_octet s \<noteq> None) ?octets"
    and q: "q = map (\<lambda>s. the (parse_octet s)) ?octets"
    by (auto simp: IPv4Address_def Let_def split: if_splits)
  have each: "\<And>s. s \<in> set ?octets \<Longrightarrow> the (parse_octet s) < 256 \<and> str_of_nat (the (parse_octet s)) = s"
    using ok parse_octet_print by (fastforce simp: list_all_iff)
  have "map str_of_nat q = ?octets" unfolding q using each by (simp add: map_idI)
  then have "join ''.'' (map str_of_nat q) = ip" using join_split_on[of "CHR ''.''" ip] by simp
  moreover have "list_all (\<lambda>x. x < 256) q" unfolding q using each by (simp add: list_all_iff)
  ultimately show ?thesis using len q by simp
qed

lemma split_on_no_sep: "c \<notin> set s \<Longrightarrow> split_on c s = [s]"
  by (induction s) auto

lemma split_on_one_sep:
  "c \<notin> set h \<Longrightarrow> c \<notin> set t \<Longrightarrow> split_on c (h @ c # t) = [h, t]"
  by (induction h) (auto simp: split_on_no_sep)

lemma ipv4_round_trip:
  assumes "ip_address_version ip = Inr 4"
  shows "\<exists>e. spawnClient_b64ip ip = Inr e \<and> length e = 6 \<and> decode_p10_ip e = Inr (Some ip)"
proof -
  from assms obtain q where q: "IPv4Address ip = Some q"
    by (auto simp: ip_address_version_def split: if_splits)
  from IPv4Address_print[OF q] have len: "length q = 4" and lt: "list_all (\<lambda>x. x < 256) q"
    and pr: "join ''.'' (map str_of_nat q) = ip" by simp_all
  from len obtain a b c d where abcd: "q = [a, b, c, d]"
    by (auto simp: length_Suc_conv numeral_Bit0 numeral_2_eq_2 eval_nat_numeral)
  with lt have b: "a < 256" "b < 256" "c < 256" "d < 256" by simp_all
  have enc: "spawnClient_b64ip ip = Inr (b64ip_of a b c d)"
    using assms q abcd b64encode_quad[of a b c d]
    by (simp add: spawnClient_b64ip_def inet_aton_def)
  have l6: "length (b64ip_of a b c d) = 6" by (simp add: b64ip_of_def)
  have "decode_p10_ip (b64ip_of a b c d) = Inr (Some ip)"
    using l6 b64decode_quad[OF b] pr abcd
    by (simp add: decode_p10_ip_def inet_ntoa_def)
  with enc l6 show ?thesis by blast
qed

lemma decode_zero_quad: "decode_p10_ip ''AAAAAA'' = Inr (Some ''0.0.0.0'')"
  by code_simp

lemma ipv6_placeholder:
  assumes "ip_address_version ip = Inr 6"
  shows "spawnClient_b64ip ip = Inr ''AAAAAA''"
  using assms by (simp add: spawnClient_b64ip_def)

lemma ip6_pad:
  assumes "CHR ''_'' \<notin> set h" "CHR ''_'' \<notin> set t" "decode_sections h = Inr bh"
    "decode_sections t = Inr bt"
  shows "decode_p10_ip6_bytes (h @ ''_'' @ t) =
       Inr (bh @ replicate (16 - length bh - length bt) 0 @ bt)"
  using assms by (simp add: decode_p10_ip6_bytes_def split_on_one_sep)

text \<open>
  C3 (as amended). For every string that \<open>ip_address\<close> takes for an IPv4 address, the
  six characters \<open>spawnClient\<close> sends decode to the same string. For every string it
  takes for an IPv6 address, \<open>spawnClient\<close> sends \<open>AAAAAA\<close>, which decodes to
  \<open>0.0.0.0\<close>. The decoder fills the place of the underscore with
  \<open>16 - len(byteshead) - len(bytestail)\<close> zero bytes.
\<close>

theorem p10_ip_round_trip:
  "(ip_address_version ip4 = Inr 4 \<longrightarrow>
      (\<exists>e. spawnClient_b64ip ip4 = Inr e \<and> length e = 6 \<and> decode_p10_ip e = Inr (Some ip4))) \<and>
   (ip_address_version ip6 = Inr 6 \<longrightarrow>
      spawnClient_b64ip ip6 = Inr ''AAAAAA'' \<and> decode_p10_ip ''AAAAAA'' = Inr (Some ''0.0.0.0'')) \<and>
   (CHR ''_'' \<notin> set h \<and> CHR ''_'' \<notin> set t \<and> decode_sections h = Inr bh \<and>
    decode_sections t = Inr bt \<longrightarrow>
      decode_p10_ip6_bytes (h @ ''_'' @ t) =
        Inr (bh @ replicate (16 - length bh - length bt) 0 @ bt))"
  using ipv4_round_trip ipv6_placeholder decode_zero_quad ip6_pad by blast

text \<open>C3 at \<open>192.168.1.10\<close>, at \<open>1:2::3\<close> and at the encoding \<open>AABAAC_AAD\<close>.\<close>

theorem p10_ip_round_trip_witness:
  "ip_address_version ''192.168.1.10'' = Inr 4 \<and>
   (\<exists>e. spawnClient_b64ip ''192.168.1.10'' = Inr e \<and> length e = 6 \<and>
        decode_p10_ip e = Inr (Some ''192.168.1.10'')) \<and>
   ip_address_version ''1:2::3'' = Inr 6 \<and>
   spawnClient_b64ip ''1:2::3'' = Inr ''AAAAAA'' \<and>
   decode_p10_ip ''AAAAAA'' = Inr (Some ''0.0.0.0'') \<and>
   CHR ''_'' \<notin> set ''AABAAC'' \<and> CHR ''_'' \<notin> set ''AAD'' \<and>
   decode_sections ''AABAAC'' = Inr [0, 1, 0, 2] \<and> decode_sections ''AAD'' = Inr [0, 3] \<and>
   decode_p10_ip6_bytes (''AABAAC'' @ ''_'' @ ''AAD'') =
     Inr ([0, 1, 0, 2] @ replicate (16 - length [0::nat, 1, 0, 2] - length [0::nat, 3]) 0 @ [0, 3])"
proof -
  have 1: "ip_address_version ''192.168.1.10'' = Inr 4" by code_simp
  have 2: "ip_address_version ''1:2::3'' = Inr 6" by code_simp
  have 3: "CHR ''_'' \<notin> set ''AABAAC''" "CHR ''_'' \<notin> set ''AAD''" by simp_all
  have 4: "decode_sections ''AABAAC'' = Inr [0, 1, 0, 2]" by code_simp
  have 5: "decode_sections ''AAD'' = Inr [0, 3]" by code_simp
  from p10_ip_round_trip[of "''192.168.1.10''" "''1:2::3''" "''AABAAC''" "''AAD''" "[0, 1, 0, 2]" "[0, 3]"]
    1 2 3 4 5
  show ?thesis by blast
qed

text \<open>
  C3 as stated fails for IPv6: \<open>1:2::3\<close> has one run of zeros and the decoder reads
  it from \<open>AABAAC_AAD\<close>, but \<open>spawnClient\<close> sends \<open>AAAAAA\<close> for it, which
  decodes to \<open>0.0.0.0\<close>.
\<close>

theorem ipv6_round_trip_fails:
  "ip_address_version ''1:2::3'' = Inr 6 \<and>
   spawnClient_b64ip ''1:2::3'' = Inr ''AAAAAA'' \<and>
   decode_p10_ip ''AAAAAA'' = Inr (Some ''0.0.0.0'') \<and>
   decode_p10_ip ''AABAAC_AAD'' = Inr (Some ''1:2::3'')"
  by code_simp

section \<open>Decoding malformed addresses\<close>




















section \<open>The nick of a mirror client\<close>

























section \<open>The TS6 SID generator\<close>

lemma init_chars_servers:
  "init_chars idx q self = Inr g \<Longrightarrow> servers g = servers self"
  by (induction idx q self rule: init_chars.induct) (auto simp: Let_def split: if_splits)

lemma TS6SIDGenerator_init_servers:
  "TS6SIDGenerator_init live sidrange = Inr g \<Longrightarrow> servers g = None"
  unfolding TS6SIDGenerator_init_def
  by (auto split: option.splits if_splits dest: init_chars_servers)

text \<open>
  Claim C2 (\<open>TS6SIDGenerator.next_sid\<close>). The claim has successive calls return the SIDs of
  the template in increasing order. In the code no call returns: the constructor sets
  \<open>irc\<close>, \<open>query\<close>, \<open>iters\<close>, \<open>output\<close> and \<open>allowedchars\<close> only, and the loop of
  \<open>next_sid\<close> tests membership in \<open>self.servers\<close>. For every generator the constructor
  builds, whatever the template and the live server table, \<open>next_sid\<close> raises
  \<open>AttributeError\<close> and leaves the generator as it was.
\<close>

theorem next_sid_TS6_raises:
  assumes "TS6SIDGenerator_init live sidrange = Inr g"
  shows "next_sid_TS6 g = Some (Inl AttributeError, g)"
  using TS6SIDGenerator_init_servers[OF assms] by (simp add: next_sid_TS6_def)

text \<open>
  Claim C2, at the template \<open>1#A\<close> on an empty server table: the constructor accepts the
  template, its first SID would be \<open>10A\<close>, and the first call of \<open>next_sid\<close> raises.
\<close>

theorem next_sid_TS6_raises_witness:
  "\<exists>g. TS6SIDGenerator_init [] (Some ''1#A'') = Inr g \<and> output_chars g = ''10A''
       \<and> next_sid_TS6 g = Some (Inl AttributeError, g)"
proof -
  obtain g where g: "TS6SIDGenerator_init [] (Some ''1#A'') = Inr g"
    by (simp add: TS6SIDGenerator_init_def digits_def ascii_uppercase_def)
  have "output_chars g = ''10A''"
    using g by (auto simp: TS6SIDGenerator_init_def digits_def ascii_uppercase_def)
  with g next_sid_TS6_raises[OF g] show ?thesis by blast
qed

section \<open>The last member of a channel leaves\<close>

lemma part_one_P10_channel:
  assumes "irc_channels irc c = Some cobj"
  shows "irc_channels (part_one_P10 h source c irc) =
           (if chan_users cobj - {source} = {} then (irc_channels irc)(c := None)
            else (irc_channels irc)(c \<mapsto> removeuser source cobj))"
  using assms
  by (auto simp: part_one_P10_def channels_get_def removeuser_def Let_def split: option.splits)

lemma part_one_TS6_channel:
  assumes "irc_channels irc c = Some cobj"
  shows "irc_channels (part_one_TS6 h source c irc) =
           (if chan_users cobj - {source} = {} \<and> \<not> is_permanent irc cobj
            then (irc_channels irc)(c := None)
            else (irc_channels irc)(c \<mapsto> removeuser source cobj))"
  using assms
  by (auto simp: part_one_TS6_def channels_get_def removeuser_def is_permanent_def Let_def
           split: option.splits)

text \<open>
  In the TS6 module the channel that its last member leaves is deleted exactly when it is
  not permanent.
\<close>

lemma handle_part_TS6_last_member:
  assumes "irc_channels irc (toLower h c) = Some cobj"
    and "chan_users cobj = {source}"
    and "CHR '','' \<notin> set (toLower h c)"
  shows "\<exists>ev irc'. handle_part_TS6 h source cmd [c] irc = (Inr ev, irc')
           \<and> (irc_channels irc' (toLower h c) = None \<longleftrightarrow> \<not> is_permanent irc cobj)"
  using assms(2,3) part_one_TS6_channel[OF assms(1), of h source]
  by (simp add: handle_part_TS6_def split_on_no_sep)

text \<open>
  Claim C7 (\<open>handle_part\<close> and \<open>handle_kick\<close> of both modules). The claim has the channel
  that its last member leaves deleted if and only if it carries no permanent mode. The
  P10 module deletes it in every case: its test is \<open>not self.channels[channel].users\<close>
  alone, under the comment that announces the clearing of empty non-permanent channels.
  When the only member of a permanent channel parts, the channel is gone from the channel
  table afterwards.
\<close>

theorem handle_part_P10_deletes_permanent:
  assumes "irc_channels irc (toLower h c) = Some cobj"
    and "chan_users cobj = {source}"
    and "CHR '','' \<notin> set (toLower h c)"
    and "is_permanent irc cobj"
  shows "\<exists>ev irc'. handle_part_P10 h source cmd [c] irc = (Inr ev, irc')
           \<and> irc_channels irc' (toLower h c) = None"
  using assms(2,3) part_one_P10_channel[OF assms(1), of h source]
  by (simp add: handle_part_P10_def split_on_no_sep)

text \<open>
  Claim C7, on the small network: \<open>#test\<close> is permanent (\<open>+z\<close>) and \<open>ACAAA\<close> is its only
  member; after \<open>handle_part('ACAAA', 'PART', ['#test'])\<close> of the P10 module the channel
  table has no \<open>#test\<close>.
\<close>

theorem handle_part_P10_deletes_permanent_witness:
  "irc_channels example_net (toLower example_helpers ''#test'') = Some example_channel
   \<and> chan_users example_channel = {''ACAAA''}
   \<and> CHR '','' \<notin> set (toLower example_helpers ''#test'')
   \<and> is_permanent example_net example_channel
   \<and> (\<exists>ev irc'. handle_part_P10 example_helpers ''ACAAA'' ''PART'' [''#test''] example_net = (Inr ev, irc')
           \<and> irc_channels irc' (toLower example_helpers ''#test'') = None)"
proof -
  have a: "irc_channels example_net (toLower example_helpers ''#test'') = Some example_channel"
    by (simp add: example_net_def example_helpers_def)
  have b: "chan_users example_channel = {''ACAAA''}"
    by (simp add: example_channel_def)
  have c: "CHR '','' \<notin> set (toLower example_helpers ''#test'')"
    by (simp add: example_helpers_def)
  have d: "is_permanent example_net example_channel"
    by (simp add: is_permanent_def example_net_def example_channel_def)
  from handle_part_P10_deletes_permanent[OF a b c d, of "''PART''"] a b c d show ?thesis by blast
qed

text \<open>
  The same for an incoming KICK in the P10 module, which goes through \<open>handle_part\<close>: the
  permanent channel whose only member is kicked is deleted.
\<close>

lemma handle_kick_P10_deletes_permanent:
  assumes "irc_channels irc (toLower h (toLower h c)) = Some cobj"
    and "chan_users cobj = {kicked}"
    and "CHR '','' \<notin> set (toLower h (toLower h c))"
    and "is_permanent irc cobj"
  shows "\<exists>ev irc'. handle_kick_P10 h source cmd [c, kicked, reason] irc = (Inr ev, irc')
           \<and> irc_channels irc' (toLower h (toLower h c)) = None"
  using assms(2,3) part_one_P10_channel[OF assms(1), of h kicked]
  by (simp add: handle_kick_P10_def handle_part_P10_def split_on_no_sep Let_def
                send_with_prefix_P10_def send_def)

section \<open>Kicks sent by the bridge\<close>

lemma part_one_P10_channels:
  "irc_channels (part_one_P10 h source c irc) =
     (let cobj = (case irc_channels irc c of Some x \<Rightarrow> x | None \<Rightarrow> new_IrcChannel h) in
      if chan_users cobj - {source} = {} then (irc_channels irc)(c := None)
      else (irc_channels irc)(c \<mapsto> removeuser source cobj))"
  by (auto simp: part_one_P10_def channels_get_def removeuser_def Let_def split: option.splits)

lemma part_one_P10_sent: "sent (part_one_P10 h source c irc) = sent irc"
  by (auto simp: part_one_P10_def channels_get_def Let_def split: option.splits prod.splits)

lemma part_one_P10_removes: "not_member target c (part_one_P10 h target c irc)"
  by (auto simp: not_member_def part_one_P10_channels Let_def removeuser_def split: option.splits)

lemma part_one_P10_keeps:
  "not_member target c irc \<Longrightarrow> not_member target c (part_one_P10 h target c' irc)"
  by (cases "c = c'") (auto simp: part_one_P10_removes, auto simp: not_member_def part_one_P10_channels Let_def)

lemma parts_P10_sent:
  "sent (foldl (\<lambda>st channel. part_one_P10 h source channel st) irc cs) = sent irc"
  by (induction cs arbitrary: irc) (auto simp: part_one_P10_sent)

lemma parts_P10_keeps:
  "not_member target c irc \<Longrightarrow>
   not_member target c (foldl (\<lambda>st channel. part_one_P10 h target channel st) irc cs)"
  by (induction cs arbitrary: irc) (auto simp: part_one_P10_keeps)

lemma parts_P10_removes:
  "c \<in> set cs \<Longrightarrow>
   not_member target c (foldl (\<lambda>st channel. part_one_P10 h target channel st) irc cs)"
proof (induction cs arbitrary: irc)
  case Nil then show ?case by simp
next
  case (Cons a cs)
  show ?case
  proof (cases "c = a")
    case True
    then show ?thesis by (simp add: parts_P10_keeps part_one_P10_removes)
  next
    case False
    with Cons show ?thesis by simp
  qed
qed

lemma channels_get_tables:
  "irc_users (snd (channels_get h c irc)) = irc_users irc"
  "irc_servers (snd (channels_get h c irc)) = irc_servers irc"
  "sent (snd (channels_get h c irc)) = sent irc"
  by (auto simp: channels_get_def split: option.splits)

lemma handle_part_P10_single:
  "handle_part_P10 h source cmd [c] irc =
     (Inr (split_on (CHR '','') (toLower h c), []),
      foldl (\<lambda>st channel. part_one_P10 h source channel st) irc (split_on (CHR '','') (toLower h c)))"
  by (simp add: handle_part_P10_def Let_def)

lemma internal_client_user:
  assumes "isInternalClient irc numeric \<or> isInternalServer irc numeric"
    and "irc_servers irc numeric = None"
  shows "\<exists>u. irc_users irc numeric = Some u"
  using assms
  by (auto simp: isInternalClient_def isInternalServer_def getServer_def split: option.splits)

text \<open>
  Claim C10 (\<open>P10Protocol.kick\<close>). A call whose sender is a live, internally-owned client
  or server returns, and sends exactly one line, \<open>src K channel target :rsn\<close>. When the
  sender is a user, that is not an identifier of the server table, and holds neither op
  nor halfop in the channel (\<open>rerouted\<close>), the source \<open>src\<close> of the line is the server
  of the sender and the reason \<open>rsn\<close> starts with the nick of the sender in parentheses;
  otherwise the source is the sender and the reason is the one given (or
  \<open>No reason given\<close>). In all these cases the state left is the one that
  \<open>handle_part(target, 'KICK', [channel])\<close> leaves after the line is sent, and the target
  is not a member of the channel afterwards.
\<close>

theorem kick_P10_result:
  fixes h numeric channel target reason irc
  defines "c1 \<equiv> toLower h channel"
    and "reason1 \<equiv> (if truthy reason then the reason else ''No reason given'')"
  defines "cobj \<equiv> fst (channels_get h c1 irc)"
  defines "rerouted \<equiv> irc_servers irc numeric = None \<and> \<not> isOp cobj numeric \<and> \<not> isHalfop cobj numeric"
  defines "src \<equiv> (if rerouted then user_server (the (irc_users irc numeric)) else numeric)"
    and "rsn \<equiv> (if rerouted then ''('' @ user_nick (the (irc_users irc numeric)) @ '') '' @ reason1
                 else reason1)"
  defines "line \<equiv> src @ '' K '' @ c1 @ '' '' @ target @ '' :'' @ rsn"
  assumes ok: "isInternalClient irc numeric \<or> isInternalServer irc numeric"
  shows "\<exists>irc'. kick_P10 h numeric channel target reason irc = (Inr (), irc')
           \<and> sent irc' = sent irc @ [line]
           \<and> irc' = snd (handle_part_P10 h target ''KICK'' [c1]
                          (send line (snd (channels_get h c1 irc))))
           \<and> list_all (\<lambda>c. not_member target c irc') (split_on (CHR '','') (toLower h c1))"
proof -
  obtain co irc1 where cg: "channels_get h c1 irc = (co, irc1)" by (cases "channels_get h c1 irc")
  have co: "co = cobj" using cg by (simp add: cobj_def)
  have t1: "irc_users irc1 = irc_users irc" "irc_servers irc1 = irc_servers irc" "sent irc1 = sent irc"
    using channels_get_tables[of h c1 irc] cg by simp_all
  let ?fin = "foldl (\<lambda>st channel. part_one_P10 h target channel st) (send line irc1)
                (split_on (CHR '','') (toLower h c1))"
  have r: "(if \<not> truthy reason then ''No reason given'' else the reason) = reason1"
    by (simp add: reason1_def)
  have k: "kick_P10 h numeric channel target reason irc = (Inr (), ?fin)"
  proof (cases rerouted)
    case True
    then have ns: "irc_servers irc numeric = None" by (simp add: rerouted_def)
    from internal_client_user[OF ok ns] obtain u where u: "irc_users irc numeric = Some u" by blast
    have l: "line = user_server u @ '' K '' @ c1 @ '' '' @ target @ '' :('' @ user_nick u @ '') '' @ reason1"
      using True u by (simp add: line_def src_def rsn_def)
    show ?thesis
      using ok True u ns cg co t1 l
      by (simp add: kick_P10_def c1_def[symmetric] r rerouted_def
            getFriendlyName_def getServer_def str_of_opt_def send_with_prefix_P10_def
            handle_part_P10_single Let_def)
  next
    case False
    have l: "line = numeric @ '' K '' @ c1 @ '' '' @ target @ '' :'' @ reason1"
      using False by (simp add: line_def src_def rsn_def)
    have nr: "\<not> (irc_servers irc numeric = None \<and> \<not> isOp co numeric \<and> \<not> isHalfop co numeric)"
      using False co by (simp add: rerouted_def)
    show ?thesis
      using ok nr cg t1 l
      by (auto simp: kick_P10_def c1_def[symmetric] r
            send_with_prefix_P10_def handle_part_P10_single Let_def)
  qed
  have s: "sent ?fin = sent irc @ [line]"
    by (simp add: parts_P10_sent send_def t1)
  have e: "?fin = snd (handle_part_P10 h target ''KICK'' [c1] (send line (snd (channels_get h c1 irc))))"
    by (simp add: handle_part_P10_single cg)
  have m: "list_all (\<lambda>c. not_member target c ?fin) (split_on (CHR '','') (toLower h c1))"
    unfolding list_all_iff by (auto intro: parts_P10_removes)
  from k s e m show ?thesis by blast
qed

text \<open>
  Claim C10, on the small network: the client \<open>ABAAA\<close> of the bridge, which holds no
  prefix mode in \<open>#test\<close>, kicks \<open>ACAAA\<close>. The line goes out from the server \<open>AB\<close>
  with the nick \<open>PyLink\<close> in front of the reason, and \<open>ACAAA\<close> is no longer a member.
\<close>

theorem kick_P10_result_witness:
  "(isInternalClient example_net ''ABAAA'' \<or> isInternalServer example_net ''ABAAA'')
   \<and> (\<exists>irc'. kick_P10 example_helpers ''ABAAA'' ''#test'' ''ACAAA'' None example_net = (Inr (), irc')
          \<and> sent irc' = [''AB K #test ACAAA :(PyLink) No reason given'']
          \<and> not_member ''ACAAA'' ''#test'' irc')"
proof -
  have ok: "isInternalClient example_net ''ABAAA'' \<or> isInternalServer example_net ''ABAAA''"
    by (simp add: isInternalClient_def isInternalServer_def getServer_def example_net_def
                  example_user_def)
  have c: "channels_get example_helpers ''#test'' example_net = (example_channel, example_net)"
    by (simp add: channels_get_def example_net_def)
  have t: "toLower example_helpers = (\<lambda>s. s)" by (simp add: example_helpers_def)
  have u: "irc_users example_net ''ABAAA'' = Some (example_user ''PyLink'' ''ABAAA'' ''AB'' {})"
    "irc_servers example_net ''ABAAA'' = None" "sent example_net = []"
    by (simp_all add: example_net_def)
  have o: "\<not> isOp example_channel ''ABAAA''" "\<not> isHalfop example_channel ''ABAAA''"
    by (simp_all add: isOp_def isHalfop_def example_channel_def)
  from kick_P10_result[OF ok, of example_helpers "''#test''" "''ACAAA''" None] ok
  show ?thesis
    by (simp add: c t u o truthy_def example_user_def)
qed

end
